theory Spec2Isabelle
  imports Complex_Main
begin

section \<open>Python values, errors and effects\<close>

text \<open>
  The script \<^verbatim>\<open>scripts/eval_novel_view.py\<close> is a driver: it reads a configuration
  record, calls external collaborators (os, shutil, torch, numpy, wandb, the dataset
  classes, \<^verbatim>\<open>eval\<close> and \<^verbatim>\<open>eval_nvs\<close>) and passes values between them.

  Values of the configuration record are Python literals. Strings are sequences of
  code points below 256 (\<^typ>\<open>char\<close>), floats are finite and stand for their exact
  rational value, dictionaries have string keys and keep insertion order.
\<close>

datatype pyval =
    PNone
  | PBool bool
  | PInt int
  | PFloat rat
  | PStr string
  | PList "pyval list"
  | PDict "(string \<times> pyval) list"

datatype pyerr =
    KeyError string
  | TypeError
  | AttributeError
  | ValueError string
  | IndexError
  | RuntimeError
  | NameError string
  | ExternalError string

type_synonym pydict = "(string \<times> pyval) list"

text \<open>Truth value of a Python object, as \<^verbatim>\<open>if x:\<close> and \<^verbatim>\<open>not x\<close> take it.\<close>

fun truthy :: "pyval \<Rightarrow> bool" where
  "truthy PNone = False"
| "truthy (PBool b) = b"
| "truthy (PInt i) = (i \<noteq> 0)"
| "truthy (PFloat q) = (q \<noteq> 0)"
| "truthy (PStr s) = (s \<noteq> [])"
| "truthy (PList xs) = (xs \<noteq> [])"
| "truthy (PDict d) = (d \<noteq> [])"

text \<open>\<^verbatim>\<open>x == n\<close> for an int literal \<open>n\<close>: numbers compare by value, \<^verbatim>\<open>True\<close> is 1.\<close>

fun py_eq_int :: "pyval \<Rightarrow> int \<Rightarrow> bool" where
  "py_eq_int (PInt i) n = (i = n)"
| "py_eq_int (PFloat q) n = (q = of_int n)"
| "py_eq_int (PBool b) n = ((if b then 1 else 0) = n)"
| "py_eq_int _ n = False"

text \<open>\<^verbatim>\<open>d[k]\<close>, \<^verbatim>\<open>k in d\<close> and \<^verbatim>\<open>d[k] = v\<close> on a dict; \<^verbatim>\<open>x[k]\<close> on any value.\<close>

definition dict_get :: "(string \<times> 'v) list \<Rightarrow> string \<Rightarrow> pyerr + 'v" where
  "dict_get d k = (case map_of d k of None \<Rightarrow> Inl (KeyError k) | Some v \<Rightarrow> Inr v)"

definition dict_has :: "(string \<times> 'v) list \<Rightarrow> string \<Rightarrow> bool" where
  "dict_has d k = (map_of d k \<noteq> None)"

fun dict_set :: "(string \<times> 'v) list \<Rightarrow> string \<Rightarrow> 'v \<Rightarrow> (string \<times> 'v) list" where
  "dict_set [] k v = [(k, v)]"
| "dict_set ((k', v') # d) k v = (if k' = k then (k, v) # d else (k', v') # dict_set d k v)"

text \<open>\<^verbatim>\<open>dict(pairs)\<close>: later pairs overwrite earlier ones with the same key.\<close>

definition py_dict :: "(string \<times> 'v) list \<Rightarrow> (string \<times> 'v) list" where
  "py_dict kvs = foldl (\<lambda>d (k, v). dict_set d k v) [] kvs"

fun py_getitem :: "pyval \<Rightarrow> string \<Rightarrow> pyerr + pyval" where
  "py_getitem (PDict d) k = dict_get d k"
| "py_getitem _ k = Inl TypeError"

text \<open>
  \<^verbatim>\<open>str.lower()\<close> on code points below 256: A-Z and the Latin-1 capitals
  (U+00C0 to U+00DE without the multiplication sign U+00D7) move up by 32.
\<close>

definition lower_char :: "char \<Rightarrow> char" where
  "lower_char c = (let n = (of_char c :: nat) in
     if (65 \<le> n \<and> n \<le> 90) \<or> (192 \<le> n \<and> n \<le> 222 \<and> n \<noteq> 215)
     then char_of (n + 32) else c)"

definition str_lower :: "string \<Rightarrow> string" where
  "str_lower s = map lower_char s"

fun py_lower :: "pyval \<Rightarrow> pyerr + string" where
  "py_lower (PStr s) = Inr (str_lower s)"
| "py_lower _ = Inl AttributeError"

text \<open>\<^verbatim>\<open>os.path.join(a, b)\<close> and \<^verbatim>\<open>os.path.basename(p)\<close> of posixpath, on str arguments.\<close>

definition path_join :: "string \<Rightarrow> string \<Rightarrow> string" where
  "path_join a b =
     (if b \<noteq> [] \<and> hd b = CHR ''/'' then b
      else if a = [] \<or> last a = CHR ''/'' then a @ b
      else a @ ''/'' @ b)"

fun os_path_join :: "pyval \<Rightarrow> pyval \<Rightarrow> pyerr + string" where
  "os_path_join (PStr a) (PStr b) = Inr (path_join a b)"
| "os_path_join _ _ = Inl TypeError"

definition basename :: "string \<Rightarrow> string" where
  "basename p = rev (takeWhile (\<lambda>c. c \<noteq> CHR ''/'') (rev p))"

fun os_path_basename :: "pyval \<Rightarrow> pyerr + string" where
  "os_path_basename (PStr p) = Inr (basename p)"
| "os_path_basename _ = Inl TypeError"

text \<open>\<^verbatim>\<open>name + suffix\<close> with a str literal on the right: only a str can be added to.\<close>

fun py_add_str :: "pyval \<Rightarrow> string \<Rightarrow> pyerr + string" where
  "py_add_str (PStr s) suffix = Inr (s @ suffix)"
| "py_add_str _ suffix = Inl TypeError"

subsection \<open>Runs: the calls made so far and the outcome\<close>

text \<open>
  A computation with effects yields the list of external calls it made, in order, and
  either the exception that ended it (\<open>Inl\<close>) or its value (\<open>Inr\<close>). An exception is
  never caught in this script, so the first one ends the run.
\<close>

type_synonym ('ev, 'a) run = "'ev list \<times> (pyerr + 'a)"

definition ret :: "'a \<Rightarrow> ('ev, 'a) run" where
  "ret x = ([], Inr x)"

definition lift :: "pyerr + 'a \<Rightarrow> ('ev, 'a) run" where
  "lift r = ([], r)"

definition call :: "'ev \<Rightarrow> pyerr + 'a \<Rightarrow> ('ev, 'a) run" where
  "call ev outcome = ([ev], outcome)"

definition bnd :: "('ev, 'a) run \<Rightarrow> ('a \<Rightarrow> ('ev, 'b) run) \<Rightarrow> ('ev, 'b) run" where
  "bnd m f = (case snd m of
                Inl e \<Rightarrow> (fst m, Inl e)
              | Inr a \<Rightarrow> (fst m @ fst (f a), snd (f a)))"

definition raises :: "pyerr option \<Rightarrow> pyerr + unit" where
  "raises r = (case r of None \<Rightarrow> Inr () | Some e \<Rightarrow> Inl e)"

definition and_then :: "pyerr + 'a \<Rightarrow> ('a \<Rightarrow> pyerr + 'b) \<Rightarrow> pyerr + 'b" where
  "and_then r f = (case r of Inl e \<Rightarrow> Inl e | Inr a \<Rightarrow> f a)"

section \<open>Arrays and tensors\<close>

text \<open>
  An array of the archive and a tensor carry their element type, their shape and their
  elements in row-major order; a tensor also has a device and the gradient flag. The
  elements are of an arbitrary type \<open>'a\<close>: arithmetic on them is never done here.
  \<open>NpObject\<close> stands for every numpy element type that \<^verbatim>\<open>torch.tensor\<close> rejects.
\<close>

datatype np_dtype =
    NpBool | NpUInt8 | NpInt8 | NpInt16 | NpInt32 | NpInt64
  | NpFloat16 | NpFloat32 | NpFloat64 | NpComplex64 | NpComplex128 | NpObject

datatype torch_dtype =
    TBool | TUInt8 | TInt8 | TInt16 | TInt32 | TInt64
  | TFloat16 | TFloat32 | TFloat64 | TComplex64 | TComplex128

record 'a ndarray =
  nd_dtype :: np_dtype
  nd_shape :: "nat list"
  nd_data :: "'a list"

record 'a tensor =
  t_dtype :: torch_dtype
  t_device :: string
  t_requires_grad :: bool
  t_shape :: "nat list"
  t_data :: "'a list"

text \<open>A value of the parameter dict: the array read from the archive, or a tensor.\<close>

datatype 'a param = NdArray "'a ndarray" | Tensor "'a tensor"

fun torch_dtype_of :: "np_dtype \<Rightarrow> torch_dtype option" where
  "torch_dtype_of NpBool = Some TBool"
| "torch_dtype_of NpUInt8 = Some TUInt8"
| "torch_dtype_of NpInt8 = Some TInt8"
| "torch_dtype_of NpInt16 = Some TInt16"
| "torch_dtype_of NpInt32 = Some TInt32"
| "torch_dtype_of NpInt64 = Some TInt64"
| "torch_dtype_of NpFloat16 = Some TFloat16"
| "torch_dtype_of NpFloat32 = Some TFloat32"
| "torch_dtype_of NpFloat64 = Some TFloat64"
| "torch_dtype_of NpComplex64 = Some TComplex64"
| "torch_dtype_of NpComplex128 = Some TComplex128"
| "torch_dtype_of NpObject = None"

fun is_floating_or_complex :: "torch_dtype \<Rightarrow> bool" where
  "is_floating_or_complex TFloat16 = True"
| "is_floating_or_complex TFloat32 = True"
| "is_floating_or_complex TFloat64 = True"
| "is_floating_or_complex TComplex64 = True"
| "is_floating_or_complex TComplex128 = True"
| "is_floating_or_complex _ = False"

text \<open>
  \<^verbatim>\<open>torch.tensor(x)\<close>: a new tensor on the CPU without gradient from an array, with the
  array's element type; a detached copy of a tensor.
\<close>

fun torch_tensor :: "'a param \<Rightarrow> pyerr + 'a tensor" where
  "torch_tensor (NdArray a) =
     (case torch_dtype_of (nd_dtype a) of
        None \<Rightarrow> Inl TypeError
      | Some dt \<Rightarrow> Inr \<lparr>t_dtype = dt, t_device = ''cpu'', t_requires_grad = False,
                        t_shape = nd_shape a, t_data = nd_data a\<rparr>)"
| "torch_tensor (Tensor t) = Inr (t\<lparr>t_requires_grad := False\<rparr>)"

text \<open>
  \<^verbatim>\<open>t.to(device)\<close> fails when the device cannot take the tensor (\<open>to_exc\<close>, given by the
  machine). \<^verbatim>\<open>t.float()\<close> is \<open>t\<close> itself when it is float32 already, and a cast of the
  elements otherwise (\<open>cast\<close>, the rounding to float32, is a parameter).
  \<^verbatim>\<open>t.requires_grad_(True)\<close> is refused for integer and boolean tensors.
\<close>

definition tensor_to :: "('a tensor \<Rightarrow> string \<Rightarrow> pyerr option) \<Rightarrow> 'a tensor \<Rightarrow> string \<Rightarrow> pyerr + 'a tensor" where
  "tensor_to to_exc t device =
     (case to_exc t device of Some e \<Rightarrow> Inl e | None \<Rightarrow> Inr (t\<lparr>t_device := device\<rparr>))"

definition tensor_float :: "(torch_dtype \<Rightarrow> 'a \<Rightarrow> 'a) \<Rightarrow> 'a tensor \<Rightarrow> 'a tensor" where
  "tensor_float cast t =
     (if t_dtype t = TFloat32 then t
      else t\<lparr>t_dtype := TFloat32, t_data := map (cast (t_dtype t)) (t_data t)\<rparr>)"

definition set_requires_grad :: "'a tensor \<Rightarrow> bool \<Rightarrow> pyerr + 'a tensor" where
  "set_requires_grad t b =
     (if b \<and> \<not> is_floating_or_complex (t_dtype t) then Inl RuntimeError
      else Inr (t\<lparr>t_requires_grad := b\<rparr>))"

subsection \<open>Comparison with broadcasting, reduction, boolean-mask indexing\<close>

text \<open>
  \<^verbatim>\<open>torch.tensor(ids, device=d, dtype=dt)\<close> for a flat list of Python numbers converts
  each number to the element type \<open>dt\<close>; here the elements of a tensor are rationals
  (the exact values; a boolean is 0 or 1). For an integer type a Python int (or bool)
  must fit 64 bits and the range of the type, except that uint8 takes the ints from
  -255 to 255 and wraps the negative ones; a Python float must lie in the range of the
  type (compared as doubles, so up to \<open>2^63\<close> for int64) and is truncated towards zero;
  otherwise the conversion raises a RuntimeError. For the boolean type every number
  that is not zero is true. For the floating-point and complex types the conversion is
  the parameter \<open>to_float\<close> (the rounding, or the exception for an int beyond the
  doubles).
\<close>

datatype pynum = NInt int | NFloat rat | NBool bool

fun pynum_value :: "pynum \<Rightarrow> rat" where
  "pynum_value (NInt i) = of_int i"
| "pynum_value (NFloat q) = q"
| "pynum_value (NBool b) = (if b then 1 else 0)"

fun int_range :: "torch_dtype \<Rightarrow> (int \<times> int) option" where
  "int_range TUInt8 = Some (0, 255)"
| "int_range TInt8 = Some (- 128, 127)"
| "int_range TInt16 = Some (- 32768, 32767)"
| "int_range TInt32 = Some (- 2147483648, 2147483647)"
| "int_range TInt64 = Some (- 9223372036854775808, 9223372036854775807)"
| "int_range _ = None"

definition truncate_rat :: "rat \<Rightarrow> int" where
  "truncate_rat q = (if 0 \<le> q then \<lfloor>q\<rfloor> else \<lceil>q\<rceil>)"

text \<open>\<^verbatim>\<open>checked_convert\<close> of a 64-bit int and of a double to the integer type with the range
  \<open>(lo, hi)\<close>. The cast of the double \<open>2^63\<close> to int64 gives \<open>-2^63\<close> on x86-64.\<close>

definition convert_int :: "torch_dtype \<Rightarrow> int \<Rightarrow> int \<Rightarrow> int \<Rightarrow> pyerr + rat" where
  "convert_int dt lo hi i =
     (if i < - 9223372036854775808 \<or> 9223372036854775807 < i then Inl RuntimeError
      else if dt = TUInt8 then
        (if 255 < i \<or> i < - 255 then Inl RuntimeError else Inr (of_int (i mod 256)))
      else if i < lo \<or> hi < i then Inl RuntimeError
      else Inr (of_int i))"

definition convert_double :: "torch_dtype \<Rightarrow> int \<Rightarrow> int \<Rightarrow> rat \<Rightarrow> pyerr + rat" where
  "convert_double dt lo hi q =
     (if q < of_int lo \<or> (if dt = TInt64 then 9223372036854775808 else of_int hi) < q
      then Inl RuntimeError
      else if dt = TInt64 \<and> q = 9223372036854775808 then Inr (- 9223372036854775808)
      else Inr (of_int (truncate_rat q)))"

fun torch_scalar :: "(torch_dtype \<Rightarrow> pynum \<Rightarrow> pyerr + rat) \<Rightarrow> torch_dtype \<Rightarrow> pynum \<Rightarrow> pyerr + rat" where
  "torch_scalar to_float dt v =
     (if dt = TBool then Inr (if pynum_value v = 0 then 0 else 1)
      else case int_range dt of
        None \<Rightarrow> to_float dt v
      | Some (lo, hi) \<Rightarrow>
          (case v of
             NInt i \<Rightarrow> convert_int dt lo hi i
           | NBool b \<Rightarrow> convert_int dt lo hi (if b then 1 else 0)
           | NFloat q \<Rightarrow> convert_double dt lo hi q))"

fun torch_scalars ::
  "(torch_dtype \<Rightarrow> pynum \<Rightarrow> pyerr + rat) \<Rightarrow> torch_dtype \<Rightarrow> pynum list \<Rightarrow> pyerr + rat list" where
  "torch_scalars to_float dt [] = Inr []"
| "torch_scalars to_float dt (v # vs) =
     and_then (torch_scalar to_float dt v) (\<lambda>c.
     and_then (torch_scalars to_float dt vs) (\<lambda>cs. Inr (c # cs)))"

text \<open>
  \<^verbatim>\<open>torch.tensor(ids, device=like.device, dtype=like.dtype).unsqueeze(0)\<close>: shape (1, M).
\<close>

definition ids_tensor ::
  "(torch_dtype \<Rightarrow> pynum \<Rightarrow> pyerr + rat) \<Rightarrow> rat tensor \<Rightarrow> pynum list \<Rightarrow> pyerr + rat tensor" where
  "ids_tensor to_float like ids =
     and_then (torch_scalars to_float (t_dtype like) ids) (\<lambda>cs.
     Inr \<lparr>t_dtype = t_dtype like, t_device = t_device like, t_requires_grad = False,
          t_shape = [1, length cs], t_data = cs\<rparr>)"

text \<open>
  \<^verbatim>\<open>a == b\<close> for \<open>b\<close> of shape (1, M): \<open>a\<close> is seen with at least two dimensions; its
  last dimension \<open>n\<close> and \<open>M\<close> must be equal or one of them 1. The result has the last
  dimension \<open>c\<close>; its element at flat index \<open>f\<close> compares the elements of \<open>a\<close> and \<open>b\<close>
  at the last coordinate \<open>f mod c\<close> (0 in a dimension of size 1).
\<close>

definition tensor_eq :: "'a tensor \<Rightarrow> 'a tensor \<Rightarrow> pyerr + bool tensor" where
  "tensor_eq a b =
     (let s = (if length (t_shape a) < 2
               then replicate (2 - length (t_shape a)) 1 @ t_shape a else t_shape a);
          n = last s;
          m = last (t_shape b);
          c = (if n = 1 then m else n)
      in if n = m \<or> n = 1 \<or> m = 1
         then Inr \<lparr>t_dtype = TBool, t_device = t_device a, t_requires_grad = False,
                   t_shape = butlast s @ [c],
                   t_data = map (\<lambda>f. t_data a ! ((f div c) * n + (if n = 1 then 0 else f mod c))
                                     = t_data b ! (if m = 1 then 0 else f mod c))
                                [0 ..< prod_list (butlast s) * c]\<rparr>
         else Inl RuntimeError)"

text \<open>
  \<^verbatim>\<open>t.any(dim=1)\<close> for a boolean tensor of shape (r0, r1, rest...): the result has the
  shape (r0, rest...); with \<open>p\<close> the number of elements of \<open>rest\<close>, its element at flat
  index \<open>g\<close> is the disjunction over \<open>i < r1\<close> of the elements at
  \<open>((g div p) * r1 + i) * p + g mod p\<close>.
\<close>

fun tensor_any_dim1 :: "bool tensor \<Rightarrow> pyerr + bool tensor" where
  "tensor_any_dim1 t =
     (case t_shape t of
        r0 # r1 # rest \<Rightarrow>
          (let p = prod_list rest
           in Inr (t\<lparr>t_shape := r0 # rest,
                      t_data := map (\<lambda>g. list_ex (\<lambda>i. t_data t ! (((g div p) * r1 + i) * p + g mod p))
                                              [0 ..< r1])
                                    [0 ..< r0 * p]\<rparr>))
      | _ \<Rightarrow> Inl IndexError)"

definition tensor_not :: "bool tensor \<Rightarrow> bool tensor" where
  "tensor_not t = t\<lparr>t_data := map Not (t_data t)\<rparr>"

definition chunks :: "nat \<Rightarrow> nat \<Rightarrow> 'a list \<Rightarrow> 'a list list" where
  "chunks n q xs = map (\<lambda>i. take q (drop (i * q) xs)) [0 ..< n]"

text \<open>
  \<^verbatim>\<open>t[mask]\<close> for a boolean mask: the mask's shape must be a prefix of the tensor's
  shape, and the mask on the CPU or on the tensor's device. The result keeps, in order,
  the slices at which the mask is true.
\<close>

definition tensor_mask_index :: "'a tensor \<Rightarrow> bool tensor \<Rightarrow> pyerr + 'a tensor" where
  "tensor_mask_index t msk =
     (let k = length (t_shape msk); rest = drop k (t_shape t)
      in if take k (t_shape t) \<noteq> t_shape msk then Inl IndexError
         else if t_device msk \<noteq> ''cpu'' \<and> t_device msk \<noteq> t_device t then Inl RuntimeError
         else Inr (t\<lparr>t_shape := length (filter id (t_data msk)) # rest,
                     t_data := concat (map snd (filter fst
                                 (zip (t_data msk)
                                      (chunks (prod_list (t_shape msk)) (prod_list rest) (t_data t)))))\<rparr>))"

section \<open>External collaborators\<close>

text \<open>
  A dataset object is known by its class and the arguments of its constructor. The
  keyword arguments are those the driver passes; \<open>kw_device\<close> is the argument that
  \<^verbatim>\<open>torch.device\<close> was built from.
\<close>

datatype dataset_class =
    ICLDataset | ReplicaDataset | ReplicaV2Dataset | AzureKinectDataset | ScannetDataset
  | Ai2thorDataset | Record3DDataset | RealsenseDataset | TUMDataset | ScannetPPDataset

record kwargs =
  kw_start :: pyval
  kw_end :: pyval
  kw_stride :: pyval
  kw_desired_height :: pyval
  kw_desired_width :: pyval
  kw_device :: pyval
  kw_relative_pose :: bool
  kw_ignore_bad :: pyval
  kw_use_train_split :: pyval
  kw_load_semantics :: pyval
  kw_num_semantic_classes :: pyval

record dataset =
  ds_class :: dataset_class
  ds_config_dict :: "pyval option"
  ds_basedir :: pyval
  ds_sequence :: string
  ds_kwargs :: kwargs

record wandb_init_args =
  wi_project :: pyval
  wi_entity :: pyval
  wi_group :: pyval
  wi_name :: string
  wi_config :: pydict

text \<open>
  The arguments of \<^verbatim>\<open>eval\<close> and \<^verbatim>\<open>eval_nvs\<close>. \<open>None\<close> in \<open>ea_wandb_run\<close> and
  \<open>ea_wandb_save_qual\<close>: the keyword is not passed. A tracking run is known by the
  arguments it was opened with.
\<close>

record 'a eval_args =
  ea_dataset :: dataset
  ea_params :: "(string \<times> 'a param) list"
  ea_num_frames :: pyval
  ea_eval_dir :: string
  ea_sil_thres :: pyval
  ea_wandb_run :: "wandb_init_args option"
  ea_wandb_save_qual :: "pyval option"
  ea_mapping_iters :: pyval
  ea_add_new_gaussians :: pyval
  ea_load_semantics :: pyval
  ea_eval_every :: pyval
  ea_save_frames :: bool

text \<open>The external calls of the script, with their arguments.\<close>

datatype 'a event =
    SeedEverything pyval
  | TorchDevice pyval
  | CudaSetDevice int
  | Makedirs string bool
  | ShutilCopy string string
  | Print string
  | LoadDatasetConfig pyval
  | Construct dataset
  | Len dataset
  | NpLoad pyval bool
  | WandbInit wandb_init_args
  | Eval "'a eval_args"
  | EvalNvs "'a eval_args"
  | WandbFinish wandb_init_args

text \<open>
  What the collaborators answer: the exception a call raises (\<open>None\<close>: it returns), or
  its value. \<open>parse_int\<close> is the builtin \<^verbatim>\<open>int\<close> on a str, \<open>cast_f32\<close> the rounding of
  an element to float32.
\<close>

record 'a env =
  seed_everything_exc :: "pyval \<Rightarrow> pyerr option"
  torch_device_exc :: "pyval \<Rightarrow> pyerr option"
  parse_int :: "string \<Rightarrow> pyerr + int"
  set_device_exc :: "int \<Rightarrow> pyerr option"
  makedirs_exc :: "string \<Rightarrow> pyerr option"
  copy_exc :: "string \<Rightarrow> string \<Rightarrow> pyerr option"
  load_dataset_config_res :: "pyval \<Rightarrow> pyerr + pyval"
  construct_exc :: "dataset \<Rightarrow> pyerr option"
  len_res :: "dataset \<Rightarrow> pyerr + nat"
  np_load_res :: "pyval \<Rightarrow> pyerr + (string \<times> 'a ndarray) list"
  to_exc :: "'a tensor \<Rightarrow> string \<Rightarrow> pyerr option"
  cast_f32 :: "torch_dtype \<Rightarrow> 'a \<Rightarrow> 'a"
  wandb_init_exc :: "wandb_init_args \<Rightarrow> pyerr option"
  eval_exc :: "'a eval_args \<Rightarrow> pyerr option"
  eval_nvs_exc :: "'a eval_args \<Rightarrow> pyerr option"
  finish_exc :: "wandb_init_args \<Rightarrow> pyerr option"

section \<open>The functions of the script\<close>

subsection \<open>\<^verbatim>\<open>get_dataset\<close>\<close>

text \<open>One branch of the chain: \<^verbatim>\<open>config_dict["dataset_name"].lower() in names\<close>.\<close>

definition name_in :: "pyval \<Rightarrow> string list \<Rightarrow> pyerr + bool" where
  "name_in config_dict names =
     and_then (py_getitem config_dict ''dataset_name'') (\<lambda>v.
     and_then (py_lower v) (\<lambda>n. Inr (n \<in> set names)))"

definition construct_dataset ::
  "'a env \<Rightarrow> dataset_class \<Rightarrow> pyval option \<Rightarrow> pyval \<Rightarrow> string \<Rightarrow> kwargs \<Rightarrow> ('a event, dataset) run" where
  "construct_dataset env cls config_dict basedir sequence kw =
     (let ds = \<lparr>ds_class = cls, ds_config_dict = config_dict, ds_basedir = basedir,
                ds_sequence = sequence, ds_kwargs = kw\<rparr>
      in bnd (call (Construct ds) (raises (construct_exc env ds))) (\<lambda>_. ret ds))"

definition unknown_dataset :: "pyval \<Rightarrow> ('a event, dataset) run" where
  "unknown_dataset config_dict =
     bnd (lift (py_getitem config_dict ''dataset_name'')) (\<lambda>v.
       case v of PStr s \<Rightarrow> lift (Inl (ValueError (''Unknown dataset name '' @ s)))
               | _ \<Rightarrow> lift (Inl AttributeError))"

definition get_dataset ::
  "'a env \<Rightarrow> pyval \<Rightarrow> pyval \<Rightarrow> string \<Rightarrow> kwargs \<Rightarrow> ('a event, dataset) run" where
  "get_dataset env config_dict basedir sequence kw =
     bnd (lift (name_in config_dict [''icl''])) (\<lambda>b.
     if b then construct_dataset env ICLDataset (Some config_dict) basedir sequence kw else
     bnd (lift (name_in config_dict [''replica''])) (\<lambda>b.
     if b then construct_dataset env ReplicaDataset (Some config_dict) basedir sequence kw else
     bnd (lift (name_in config_dict [''replicav2''])) (\<lambda>b.
     if b then construct_dataset env ReplicaV2Dataset (Some config_dict) basedir sequence kw else
     bnd (lift (name_in config_dict [''azure'', ''azurekinect''])) (\<lambda>b.
     if b then construct_dataset env AzureKinectDataset (Some config_dict) basedir sequence kw else
     bnd (lift (name_in config_dict [''scannet''])) (\<lambda>b.
     if b then construct_dataset env ScannetDataset (Some config_dict) basedir sequence kw else
     bnd (lift (name_in config_dict [''ai2thor''])) (\<lambda>b.
     if b then construct_dataset env Ai2thorDataset (Some config_dict) basedir sequence kw else
     bnd (lift (name_in config_dict [''record3d''])) (\<lambda>b.
     if b then construct_dataset env Record3DDataset (Some config_dict) basedir sequence kw else
     bnd (lift (name_in config_dict [''realsense''])) (\<lambda>b.
     if b then construct_dataset env RealsenseDataset (Some config_dict) basedir sequence kw else
     bnd (lift (name_in config_dict [''tum''])) (\<lambda>b.
     if b then construct_dataset env TUMDataset (Some config_dict) basedir sequence kw else
     bnd (lift (name_in config_dict [''scannetpp''])) (\<lambda>b.
     if b then construct_dataset env ScannetPPDataset None basedir sequence kw else
     unknown_dataset config_dict))))))))))"

subsection \<open>\<^verbatim>\<open>load_scene_data\<close>\<close>

text \<open>The right-hand sides of lines 68 and 70, for the key \<open>k\<close> with the value \<open>v\<close>.\<close>

definition convert_param ::
  "'a env \<Rightarrow> string set \<Rightarrow> string \<Rightarrow> string \<Rightarrow> 'a param \<Rightarrow> pyerr + 'a tensor" where
  "convert_param env params_opt_exclude device k v =
     (if k \<notin> params_opt_exclude
      then and_then (torch_tensor v) (\<lambda>t.
           and_then (tensor_to (to_exc env) t device) (\<lambda>t.
           set_requires_grad (tensor_float (cast_f32 env) t) True))
      else and_then (torch_tensor v) (\<lambda>t. tensor_to (to_exc env) t device))"

text \<open>The loop over \<^verbatim>\<open>params.keys()\<close>, which stores each tensor under its key.\<close>

fun load_loop ::
  "'a env \<Rightarrow> string set \<Rightarrow> string \<Rightarrow> string list \<Rightarrow> (string \<times> 'a param) list
     \<Rightarrow> pyerr + (string \<times> 'a param) list" where
  "load_loop env params_opt_exclude device [] params = Inr params"
| "load_loop env params_opt_exclude device (k # ks) params =
     (case dict_get params k of
        Inl e \<Rightarrow> Inl e
      | Inr v \<Rightarrow>
          (case convert_param env params_opt_exclude device k v of
             Inl e \<Rightarrow> Inl e
           | Inr t \<Rightarrow> load_loop env params_opt_exclude device ks (dict_set params k (Tensor t))))"

definition load_scene_data ::
  "'a env \<Rightarrow> pyval \<Rightarrow> string set \<Rightarrow> string \<Rightarrow> ('a event, (string \<times> 'a param) list) run" where
  "load_scene_data env scene_path params_opt_exclude device =
     bnd (call (NpLoad scene_path True) (np_load_res env scene_path)) (\<lambda>archive.
       let params = py_dict (map (\<lambda>(k, a). (k, NdArray a)) archive)
       in lift (load_loop env params_opt_exclude device (map fst params) params))"

subsection \<open>\<^verbatim>\<open>filter_semantic_params\<close>\<close>

text \<open>
  The parameter dict holds tensors here, and \<open>to_remove_ids\<close> is a list of Python
  numbers. Line 77 converts them to the element type of \<^verbatim>\<open>semantic_ids\<close>.
\<close>

fun filter_loop ::
  "bool tensor \<Rightarrow> string list \<Rightarrow> (string \<times> 'a tensor) list \<Rightarrow> pyerr + (string \<times> 'a tensor) list" where
  "filter_loop to_keep_mask [] params = Inr params"
| "filter_loop to_keep_mask (k # ks) params =
     (case dict_get params k of
        Inl e \<Rightarrow> Inl e
      | Inr t \<Rightarrow>
          (case tensor_mask_index t to_keep_mask of
             Inl e \<Rightarrow> Inl e
           | Inr t' \<Rightarrow> filter_loop to_keep_mask ks (dict_set params k t')))"

definition filter_semantic_params ::
  "(torch_dtype \<Rightarrow> pynum \<Rightarrow> pyerr + rat) \<Rightarrow> (string \<times> rat tensor) list \<Rightarrow> pynum list
     \<Rightarrow> pyerr + (string \<times> rat tensor) list" where
  "filter_semantic_params to_float params to_remove_ids =
     (if dict_has params ''semantic_ids'' then
        and_then (dict_get params ''semantic_ids'') (\<lambda>semantic_ids.
        and_then (ids_tensor to_float semantic_ids to_remove_ids) (\<lambda>to_remove_ids.
        and_then (tensor_eq semantic_ids to_remove_ids) (\<lambda>eq.
        and_then (tensor_any_dim1 eq) (\<lambda>to_remove_mask.
          let to_keep_mask = tensor_not to_remove_mask;
              keys = filter (\<lambda>k. k \<notin> set [''cam_unnorm_rots'', ''cam_trans'']) (map fst params)
          in filter_loop to_keep_mask keys params))))
      else Inr params)"

subsection \<open>The main block\<close>

text \<open>
  \<^verbatim>\<open>s.startswith(p)\<close>, \<^verbatim>\<open>s.split(c)\<close> and \<^verbatim>\<open>xs[i]\<close> for an index that is not negative.
\<close>

fun py_startswith :: "pyval \<Rightarrow> string \<Rightarrow> pyerr + bool" where
  "py_startswith (PStr s) p = Inr (take (length p) s = p)"
| "py_startswith _ p = Inl AttributeError"

fun split_on :: "char \<Rightarrow> string \<Rightarrow> string list" where
  "split_on c [] = [[]]"
| "split_on c (x # xs) =
     (if x = c then [] # split_on c xs
      else (case split_on c xs of w # ws \<Rightarrow> (x # w) # ws | [] \<Rightarrow> [[x]]))"

definition list_get :: "'b list \<Rightarrow> nat \<Rightarrow> pyerr + 'b" where
  "list_get xs i = (if i < length xs then Inr (xs ! i) else Inl IndexError)"

fun device_index :: "'a env \<Rightarrow> pyval \<Rightarrow> pyerr + int" where
  "device_index env (PStr s) = and_then (list_get (split_on CHR '':'' s) 1) (parse_int env)"
| "device_index env _ = Inl AttributeError"

text \<open>
  Lines 102 to 106. The three reads of \<^verbatim>\<open>config["primary_device"]\<close> give the same
  value; the device object is known by that value.
\<close>

definition setup_device :: "'a env \<Rightarrow> pydict \<Rightarrow> ('a event, pyval) run" where
  "setup_device env config =
     bnd (lift (dict_get config ''seed'')) (\<lambda>seed.
     bnd (call (SeedEverything seed) (raises (seed_everything_exc env seed))) (\<lambda>_.
     bnd (lift (dict_get config ''primary_device'')) (\<lambda>primary_device.
     bnd (call (TorchDevice primary_device) (raises (torch_device_exc env primary_device))) (\<lambda>_.
     bnd (lift (py_startswith primary_device ''cuda:'')) (\<lambda>b.
     if b then
       bnd (lift (device_index env primary_device)) (\<lambda>device_id.
       bnd (call (CudaSetDevice device_id) (raises (set_device_exc env device_id))) (\<lambda>_.
       ret primary_device))
     else ret primary_device)))))"

text \<open>Lines 109 to 114: the results directory and the copy of the config file.\<close>

definition results_dir_step :: "'a env \<Rightarrow> string \<Rightarrow> pydict \<Rightarrow> ('a event, string) run" where
  "results_dir_step env experiment config =
     bnd (lift (dict_get config ''workdir'')) (\<lambda>workdir.
     bnd (lift (dict_get config ''run_name'')) (\<lambda>run_name.
     bnd (lift (os_path_join workdir run_name)) (\<lambda>results_dir.
     bnd (lift (dict_get config ''load_checkpoint'')) (\<lambda>load_checkpoint.
     if \<not> truthy load_checkpoint then
       bnd (call (Makedirs results_dir True) (raises (makedirs_exc env results_dir))) (\<lambda>_.
       bnd (call (ShutilCopy experiment (path_join results_dir ''config.py''))
                 (raises (copy_exc env experiment (path_join results_dir ''config.py'')))) (\<lambda>_.
       ret results_dir))
     else ret results_dir))))"

text \<open>Lines 116 to 122: the path of the archive; \<open>results_dir\<close> is assigned again.\<close>

definition resolve_scene_path :: "pydict \<Rightarrow> string \<Rightarrow> pyerr + string \<times> pyval" where
  "resolve_scene_path config results_dir =
     (if \<not> dict_has config ''scene_path'' then
        and_then (dict_get config ''workdir'') (\<lambda>workdir.
        and_then (dict_get config ''run_name'') (\<lambda>run_name.
        and_then (os_path_join workdir run_name) (\<lambda>results_dir.
        Inr (results_dir, PStr (path_join results_dir ''params.npz'')))))
      else
        and_then (dict_get config ''scene_path'') (\<lambda>scene_path.
        Inr (results_dir, scene_path)))"

text \<open>
  Lines 126 to 131. Reading a key of, or testing a key in, a value that is not a dict
  ends in a TypeError before any call is made.
\<close>

fun as_dict :: "pyval \<Rightarrow> pyerr + pydict" where
  "as_dict (PDict d) = Inr d"
| "as_dict _ = Inl TypeError"

definition gradslam_cfg :: "'a env \<Rightarrow> pydict \<Rightarrow> ('a event, pyval) run" where
  "gradslam_cfg env dataset_config =
     (if \<not> dict_has dataset_config ''gradslam_data_cfg'' then
        bnd (lift (dict_get dataset_config ''dataset_name'')) (\<lambda>name.
        ret (PDict (dict_set [] ''dataset_name'' name)))
      else
        bnd (lift (dict_get dataset_config ''gradslam_data_cfg'')) (\<lambda>path.
        call (LoadDatasetConfig path) (load_dataset_config_res env path)))"

text \<open>Lines 132 to 135: the defaults of the dataset sub-record.\<close>

definition apply_defaults :: "pydict \<Rightarrow> pydict" where
  "apply_defaults dataset_config =
     (let d1 = (if \<not> dict_has dataset_config ''ignore_bad''
                then dict_set dataset_config ''ignore_bad'' (PBool False) else dataset_config);
          d2 = (if \<not> dict_has d1 ''use_train_split''
                then dict_set d1 ''use_train_split'' (PBool True) else d1)
      in d2)"

text \<open>Lines 136 to 142: the semantics flags and the exclusion set.\<close>

definition semantics_config :: "pydict \<Rightarrow> string set \<Rightarrow> pyerr + pyval \<times> pyval \<times> string set" where
  "semantics_config dataset_config params_opt_exclude =
     (if dict_has dataset_config ''load_semantics'' then
        and_then (dict_get dataset_config ''load_semantics'') (\<lambda>load_semantics.
        and_then (dict_get dataset_config ''num_semantic_classes'') (\<lambda>num_semantic_classes.
        Inr (load_semantics, num_semantic_classes, insert ''semantic_ids'' params_opt_exclude)))
      else Inr (PBool False, PInt 0, params_opt_exclude))"

text \<open>Lines 148 to 158: the keyword arguments, evaluated in the order written.\<close>

definition dataset_kwargs :: "pydict \<Rightarrow> pyval \<Rightarrow> pyval \<Rightarrow> pyval \<Rightarrow> pyerr + kwargs" where
  "dataset_kwargs dataset_config device load_semantics num_semantic_classes =
     and_then (dict_get dataset_config ''start'') (\<lambda>start.
     and_then (dict_get dataset_config ''end'') (\<lambda>stop.
     and_then (dict_get dataset_config ''stride'') (\<lambda>stride.
     and_then (dict_get dataset_config ''desired_image_height'') (\<lambda>height.
     and_then (dict_get dataset_config ''desired_image_width'') (\<lambda>width.
     and_then (dict_get dataset_config ''ignore_bad'') (\<lambda>ignore_bad.
     and_then (dict_get dataset_config ''use_train_split'') (\<lambda>use_train_split.
     Inr \<lparr>kw_start = start, kw_end = stop, kw_stride = stride,
          kw_desired_height = height, kw_desired_width = width,
          kw_device = device, kw_relative_pose = True,
          kw_ignore_bad = ignore_bad, kw_use_train_split = use_train_split,
          kw_load_semantics = load_semantics,
          kw_num_semantic_classes = num_semantic_classes\<rparr>)))))))"

text \<open>
  Lines 125 to 163. \<^verbatim>\<open>dataset_config\<close> is the object \<^verbatim>\<open>config["data"]\<close>, so the
  defaults are written into \<^verbatim>\<open>config\<close> itself.
\<close>

record loaded =
  ld_config :: pydict
  ld_dataset_config :: pydict
  ld_dataset :: dataset
  ld_load_semantics :: pyval
  ld_params_opt_exclude :: "string set"
  ld_num_frames :: pyval

definition frame_count :: "'a env \<Rightarrow> dataset \<Rightarrow> pyval \<Rightarrow> ('a event, pyval) run" where
  "frame_count env dataset num_frames =
     (if py_eq_int num_frames (- 1)
      then bnd (call (Len dataset) (len_res env dataset)) (\<lambda>n. ret (PInt (int n)))
      else ret num_frames)"

definition load_dataset :: "'a env \<Rightarrow> pydict \<Rightarrow> pyval \<Rightarrow> string set \<Rightarrow> ('a event, loaded) run" where
  "load_dataset env config device params_opt_exclude =
     bnd (call (Print ''Loading Dataset ...'') (Inr ())) (\<lambda>_.
     bnd (lift (and_then (dict_get config ''data'') as_dict)) (\<lambda>dataset_config.
     bnd (gradslam_cfg env dataset_config) (\<lambda>gradslam_data_cfg.
     let dataset_config = apply_defaults dataset_config in
     bnd (lift (semantics_config dataset_config params_opt_exclude))
       (\<lambda>(load_semantics, num_semantic_classes, params_opt_exclude).
     bnd (lift (dict_get dataset_config ''basedir'')) (\<lambda>basedir.
     bnd (lift (and_then (dict_get dataset_config ''sequence'') os_path_basename)) (\<lambda>sequence.
     bnd (lift (dataset_kwargs dataset_config device load_semantics num_semantic_classes)) (\<lambda>kw.
     bnd (get_dataset env gradslam_data_cfg basedir sequence kw) (\<lambda>dataset.
     bnd (lift (dict_get dataset_config ''num_frames'')) (\<lambda>num_frames.
     bnd (frame_count env dataset num_frames) (\<lambda>num_frames.
     ret \<lparr>ld_config = dict_set config ''data'' (PDict dataset_config),
          ld_dataset_config = dataset_config, ld_dataset = dataset,
          ld_load_semantics = load_semantics,
          ld_params_opt_exclude = params_opt_exclude,
          ld_num_frames = num_frames\<rparr>))))))))))"

text \<open>Lines 170 to 175: the output directory and the name of the tracking run.\<close>

definition split_names :: "pydict \<Rightarrow> pydict \<Rightarrow> string \<Rightarrow> pyerr + string \<times> string" where
  "split_names config dataset_config results_dir =
     and_then (dict_get dataset_config ''use_train_split'') (\<lambda>use_train_split.
     if truthy use_train_split then
       and_then (and_then (dict_get config ''wandb'') (\<lambda>w. py_getitem w ''name'')) (\<lambda>name.
       and_then (py_add_str name ''_Train_Split'') (\<lambda>wandb_name.
       Inr (path_join results_dir ''eval_train'', wandb_name)))
     else
       and_then (and_then (dict_get config ''wandb'') (\<lambda>w. py_getitem w ''name'')) (\<lambda>name.
       and_then (py_add_str name ''_NVS_Split'') (\<lambda>wandb_name.
       Inr (path_join results_dir ''eval_nvs'', wandb_name))))"

text \<open>Lines 178 to 186: the tracking run is opened.\<close>

definition wandb_open :: "'a env \<Rightarrow> pydict \<Rightarrow> string \<Rightarrow> ('a event, wandb_init_args option) run" where
  "wandb_open env config wandb_name =
     bnd (lift (dict_get config ''use_wandb'')) (\<lambda>use_wandb.
     if truthy use_wandb then
       bnd (lift (and_then (dict_get config ''wandb'') (\<lambda>w. py_getitem w ''project''))) (\<lambda>project.
       bnd (lift (and_then (dict_get config ''wandb'') (\<lambda>w. py_getitem w ''entity''))) (\<lambda>entity.
       bnd (lift (and_then (dict_get config ''wandb'') (\<lambda>w. py_getitem w ''group''))) (\<lambda>group.
       let a = \<lparr>wi_project = project, wi_entity = entity, wi_group = group,
                wi_name = wandb_name, wi_config = config\<rparr>
       in bnd (call (WandbInit a) (raises (wandb_init_exc env a))) (\<lambda>_. ret (Some a)))))
     else ret None)"

text \<open>
  Lines 189 to 209. The keyword arguments are evaluated in the order written;
  \<open>with_wandb\<close> tells whether the two tracking keywords are passed.
\<close>

definition eval_arguments ::
  "pydict \<Rightarrow> dataset \<Rightarrow> (string \<times> 'a param) list \<Rightarrow> pyval \<Rightarrow> string \<Rightarrow> pyval
     \<Rightarrow> wandb_init_args option \<Rightarrow> bool \<Rightarrow> pyerr + 'a eval_args" where
  "eval_arguments config dataset params num_frames eval_dir load_semantics wandb_run with_wandb =
     and_then (and_then (dict_get config ''mapping'') (\<lambda>m. py_getitem m ''sil_thres'')) (\<lambda>sil_thres.
     and_then (if with_wandb
               then and_then (and_then (dict_get config ''wandb'') (\<lambda>w. py_getitem w ''eval_save_qual''))
                             (\<lambda>q. Inr (Some q))
               else Inr None) (\<lambda>save_qual.
     and_then (and_then (dict_get config ''mapping'') (\<lambda>m. py_getitem m ''num_iters'')) (\<lambda>num_iters.
     and_then (and_then (dict_get config ''mapping'') (\<lambda>m. py_getitem m ''add_new_gaussians'')) (\<lambda>add_new.
     and_then (dict_get config ''eval_every'') (\<lambda>eval_every.
     Inr \<lparr>ea_dataset = dataset, ea_params = params, ea_num_frames = num_frames,
          ea_eval_dir = eval_dir, ea_sil_thres = sil_thres,
          ea_wandb_run = (if with_wandb then wandb_run else None),
          ea_wandb_save_qual = save_qual,
          ea_mapping_iters = num_iters, ea_add_new_gaussians = add_new,
          ea_load_semantics = load_semantics, ea_eval_every = eval_every,
          ea_save_frames = True\<rparr>)))))"

definition evaluate ::
  "'a env \<Rightarrow> pydict \<Rightarrow> pydict \<Rightarrow> dataset \<Rightarrow> (string \<times> 'a param) list \<Rightarrow> pyval \<Rightarrow> string \<Rightarrow> pyval
     \<Rightarrow> wandb_init_args option \<Rightarrow> ('a event, unit) run" where
  "evaluate env config dataset_config dataset params num_frames eval_dir load_semantics wandb_run =
     bnd (lift (dict_get config ''use_wandb'')) (\<lambda>use_wandb.
     if truthy use_wandb then
       (case wandb_run of
          None \<Rightarrow> lift (Inl (NameError ''wandb_run''))
        | Some r \<Rightarrow>
           bnd (lift (dict_get dataset_config ''use_train_split'')) (\<lambda>use_train_split.
           if truthy use_train_split then
             bnd (lift (eval_arguments config dataset params num_frames eval_dir load_semantics
                          wandb_run True)) (\<lambda>a.
             call (Eval a) (raises (eval_exc env a)))
           else
             bnd (lift (eval_arguments config dataset params num_frames eval_dir load_semantics
                          wandb_run True)) (\<lambda>a.
             call (EvalNvs a) (raises (eval_nvs_exc env a)))))
     else
       bnd (lift (dict_get dataset_config ''use_train_split'')) (\<lambda>use_train_split.
       if truthy use_train_split then
         bnd (lift (eval_arguments config dataset params num_frames eval_dir load_semantics
                      wandb_run False)) (\<lambda>a.
         call (Eval a) (raises (eval_exc env a)))
       else
         bnd (lift (eval_arguments config dataset params num_frames eval_dir load_semantics
                      wandb_run False)) (\<lambda>a.
         call (EvalNvs a) (raises (eval_nvs_exc env a)))))"

text \<open>Lines 212 and 213: the tracking run is closed.\<close>

definition wandb_close :: "'a env \<Rightarrow> pydict \<Rightarrow> wandb_init_args option \<Rightarrow> ('a event, unit) run" where
  "wandb_close env config wandb_run =
     bnd (lift (dict_get config ''use_wandb'')) (\<lambda>use_wandb.
     if truthy use_wandb then
       (case wandb_run of
          None \<Rightarrow> lift (Inl (NameError ''wandb_run''))
        | Some r \<Rightarrow> call (WandbFinish r) (raises (finish_exc env r)))
     else ret ())"

text \<open>
  The main block, for the command-line argument \<open>experiment\<close> and the configuration
  record \<open>config\<close> that the experiment file defines. \<open>prepare\<close> is lines 87 to 175 and
  yields the variables of the block (\<open>load_inputs\<close> is its part from line 116 on);
  \<open>tracked_eval\<close> is lines 177 to 213.
  \<^verbatim>\<open>load_scene_data\<close> is called without a device, so with its default \<^verbatim>\<open>"cuda"\<close>;
  \<^verbatim>\<open>params_opt_exclude\<close> starts empty (line 99).
\<close>

record 'a locals =
  l_config :: pydict
  l_device :: pyval
  l_results_dir :: string
  l_scene_path :: pyval
  l_dataset_config :: pydict
  l_load_semantics :: pyval
  l_params_opt_exclude :: "string set"
  l_dataset :: dataset
  l_num_frames :: pyval
  l_params :: "(string \<times> 'a param) list"
  l_eval_dir :: string
  l_wandb_name :: string

definition load_inputs ::
  "'a env \<Rightarrow> pydict \<Rightarrow> pyval \<Rightarrow> string \<Rightarrow> ('a event, 'a locals) run" where
  "load_inputs env config device results_dir =
     bnd (lift (resolve_scene_path config results_dir)) (\<lambda>(results_dir, scene_path).
     bnd (load_dataset env config device {}) (\<lambda>ld.
     bnd (load_scene_data env scene_path (ld_params_opt_exclude ld) ''cuda'') (\<lambda>params.
     bnd (lift (split_names (ld_config ld) (ld_dataset_config ld) results_dir)) (\<lambda>(eval_dir, wandb_name).
     ret \<lparr>l_config = ld_config ld, l_device = device, l_results_dir = results_dir,
          l_scene_path = scene_path, l_dataset_config = ld_dataset_config ld,
          l_load_semantics = ld_load_semantics ld,
          l_params_opt_exclude = ld_params_opt_exclude ld,
          l_dataset = ld_dataset ld, l_num_frames = ld_num_frames ld,
          l_params = params, l_eval_dir = eval_dir, l_wandb_name = wandb_name\<rparr>))))"

definition prepare :: "'a env \<Rightarrow> string \<Rightarrow> pydict \<Rightarrow> ('a event, 'a locals) run" where
  "prepare env experiment config =
     bnd (setup_device env config) (\<lambda>device.
     bnd (results_dir_step env experiment config) (\<lambda>results_dir.
     load_inputs env config device results_dir))"

definition tracked_eval :: "'a env \<Rightarrow> 'a locals \<Rightarrow> ('a event, unit) run" where
  "tracked_eval env l =
     bnd (wandb_open env (l_config l) (l_wandb_name l)) (\<lambda>wandb_run.
     bnd (evaluate env (l_config l) (l_dataset_config l) (l_dataset l) (l_params l)
            (l_num_frames l) (l_eval_dir l) (l_load_semantics l) wandb_run) (\<lambda>_.
     wandb_close env (l_config l) wandb_run))"

definition main :: "'a env \<Rightarrow> string \<Rightarrow> pydict \<Rightarrow> ('a event, unit) run" where
  "main env experiment config =
     bnd (prepare env experiment config) (\<lambda>l. tracked_eval env l)"

section \<open>Notions used to state the properties\<close>

text \<open>The slices of a tensor along its first dimension, each in row-major order.\<close>

definition rows :: "'a tensor \<Rightarrow> 'a list list" where
  "rows t = chunks (hd (t_shape t)) (prod_list (tl (t_shape t))) (t_data t)"

text \<open>
  Collaborators that never raise, for a machine on which the archive \<open>archive\<close> is at
  every path, every dataset has 5 frames and no dataset configuration file exists.
\<close>

definition quiet_env :: "(string \<times> 'a ndarray) list \<Rightarrow> 'a env" where
  "quiet_env archive =
     \<lparr>seed_everything_exc = (\<lambda>_. None), torch_device_exc = (\<lambda>_. None),
      parse_int = (\<lambda>_. Inr 0), set_device_exc = (\<lambda>_. None),
      makedirs_exc = (\<lambda>_. None), copy_exc = (\<lambda>_ _. None),
      load_dataset_config_res = (\<lambda>_. Inl (ExternalError ''FileNotFoundError'')),
      construct_exc = (\<lambda>_. None), len_res = (\<lambda>_. Inr 5),
      np_load_res = (\<lambda>_. Inr archive), to_exc = (\<lambda>_ _. None),
      cast_f32 = (\<lambda>_ x. x), wandb_init_exc = (\<lambda>_. None),
      eval_exc = (\<lambda>_. None), eval_nvs_exc = (\<lambda>_. None), finish_exc = (\<lambda>_. None)\<rparr>"

text \<open>Small inputs on which the functions are run.\<close>

definition small_archive :: "(string \<times> int ndarray) list" where
  "small_archive =
     [(''means3D'', \<lparr>nd_dtype = NpFloat64, nd_shape = [2, 3], nd_data = [0, 1, 2, 3, 4, 5]\<rparr>),
      (''semantic_ids'', \<lparr>nd_dtype = NpInt64, nd_shape = [2, 1], nd_data = [7, 9]\<rparr>)]"

definition small_params :: "(string \<times> rat tensor) list" where
  "small_params =
     [(''means3D'', \<lparr>t_dtype = TFloat32, t_device = ''cuda'', t_requires_grad = True,
                      t_shape = [4, 3], t_data = [10, 11, 12, 20, 21, 22, 30, 31, 32, 40, 41, 42]\<rparr>),
      (''semantic_ids'', \<lparr>t_dtype = TInt64, t_device = ''cuda'', t_requires_grad = False,
                          t_shape = [4, 1], t_data = [0, 1, 2, 0]\<rparr>),
      (''cam_unnorm_rots'', \<lparr>t_dtype = TFloat32, t_device = ''cuda'', t_requires_grad = True,
                             t_shape = [1, 4, 2], t_data = [1, 1, 0, 0, 0, 0, 0, 0]\<rparr>),
      (''cam_trans'', \<lparr>t_dtype = TFloat32, t_device = ''cuda'', t_requires_grad = True,
                       t_shape = [1, 3, 2], t_data = [0, 5, 0, 6, 0, 7]\<rparr>)]"

text \<open>
  The ten dataset names of the specification with their classes, and the class that a
  name selects by case-insensitive exact match.
\<close>

definition supported_datasets :: "(string \<times> dataset_class) list" where
  "supported_datasets =
     [(''ICL'', ICLDataset), (''Replica'', ReplicaDataset), (''ReplicaV2'', ReplicaV2Dataset),
      (''AzureKinect'', AzureKinectDataset), (''Scannet'', ScannetDataset),
      (''Ai2thor'', Ai2thorDataset), (''Record3D'', Record3DDataset),
      (''Realsense'', RealsenseDataset), (''TUM'', TUMDataset), (''ScannetPP'', ScannetPPDataset)]"

definition spec_variant :: "string \<Rightarrow> dataset_class option" where
  "spec_variant s = map_of (map (\<lambda>(n, c). (str_lower n, c)) supported_datasets) (str_lower s)"

definition small_kwargs :: kwargs where
  "small_kwargs =
     \<lparr>kw_start = PInt 0, kw_end = PInt (- 1), kw_stride = PInt 1,
      kw_desired_height = PInt 680, kw_desired_width = PInt 1200,
      kw_device = PStr ''cuda:0'', kw_relative_pose = True,
      kw_ignore_bad = PBool False, kw_use_train_split = PBool True,
      kw_load_semantics = PBool False, kw_num_semantic_classes = PInt 0\<rparr>"

text \<open>
  \<open>emits S m\<close>: every call of the run \<open>m\<close> is in \<open>S\<close>. The calls of the evaluation
  routines, of the tracking service, and those that change the file system.
\<close>

definition emits :: "'ev set \<Rightarrow> ('ev, 'b) run \<Rightarrow> bool" where
  "emits S m = (set (fst m) \<subseteq> S)"

fun is_eval :: "'a event \<Rightarrow> bool" where
  "is_eval (Eval a) = True"
| "is_eval (EvalNvs a) = True"
| "is_eval _ = False"

fun is_tracking :: "'a event \<Rightarrow> bool" where
  "is_tracking (WandbInit a) = True"
| "is_tracking (WandbFinish a) = True"
| "is_tracking _ = False"

fun is_fs :: "'a event \<Rightarrow> bool" where
  "is_fs (Makedirs p b) = True"
| "is_fs (ShutilCopy a b) = True"
| "is_fs _ = False"

text \<open>
  The evaluation call that the value of \<^verbatim>\<open>use_train_split\<close> selects and the exception it
  raises, if any; \<open>passes_locals l a\<close>: the arguments \<open>a\<close> hand on the variables of the
  main block.
\<close>

definition eval_event :: "pyval \<Rightarrow> 'a eval_args \<Rightarrow> 'a event" where
  "eval_event use_train_split a = (if truthy use_train_split then Eval a else EvalNvs a)"

definition eval_exception :: "'a env \<Rightarrow> pyval \<Rightarrow> 'a eval_args \<Rightarrow> pyerr option" where
  "eval_exception env use_train_split a =
     (if truthy use_train_split then eval_exc env a else eval_nvs_exc env a)"


text \<open>
  A configuration as the experiment files of the repository give it, for the Replica scene
  \<^verbatim>\<open>room0\<close>, with tracking on and with the value \<open>sem\<close> under the key
  \<^verbatim>\<open>load_semantics\<close>; the machine on which only the train-split evaluation may raise
  (\<open>exc\<close>); and the values the main block computes for them.
\<close>

definition example_data :: "pyval \<Rightarrow> pydict" where
  "example_data sem =
     [(''dataset_name'', PStr ''Replica''), (''basedir'', PStr ''./data/Replica''),
      (''sequence'', PStr ''room0''), (''start'', PInt 0), (''end'', PInt (- 1)),
      (''stride'', PInt 1), (''desired_image_height'', PInt 680),
      (''desired_image_width'', PInt 1200), (''num_frames'', PInt (- 1)),
      (''load_semantics'', sem), (''num_semantic_classes'', PInt 101)]"

definition example_config :: "pyval \<Rightarrow> pydict" where
  "example_config sem =
     [(''seed'', PInt 0), (''primary_device'', PStr ''cuda:0''),
      (''workdir'', PStr ''./experiments/Replica''), (''run_name'', PStr ''room0_0''),
      (''load_checkpoint'', PBool False), (''use_wandb'', PBool True), (''eval_every'', PInt 5),
      (''mapping'', PDict [(''sil_thres'', PFloat (1 / 2)), (''num_iters'', PInt 60),
                           (''add_new_gaussians'', PBool True)]),
      (''wandb'', PDict [(''project'', PStr ''SGS-SLAM''), (''entity'', PStr ''lab''),
                         (''group'', PStr ''Replica''), (''name'', PStr ''room0_0''),
                         (''eval_save_qual'', PBool True)]),
      (''data'', PDict (example_data sem))]"

definition example_env :: "pyerr option \<Rightarrow> int env" where
  "example_env exc = (quiet_env small_archive)\<lparr>eval_exc := (\<lambda>_. exc)\<rparr>"

definition example_dataset :: "pyval \<Rightarrow> dataset" where
  "example_dataset sem =
     \<lparr>ds_class = ReplicaDataset,
      ds_config_dict = Some (PDict [(''dataset_name'', PStr ''Replica'')]),
      ds_basedir = PStr ''./data/Replica'', ds_sequence = ''room0'',
      ds_kwargs = small_kwargs\<lparr>kw_load_semantics := sem,
                                kw_num_semantic_classes := PInt 101\<rparr>\<rparr>"

definition example_data_defaults :: "pyval \<Rightarrow> pydict" where
  "example_data_defaults sem =
     (example_data sem) @ [(''ignore_bad'', PBool False), (''use_train_split'', PBool True)]"

definition example_params :: "(string \<times> int param) list" where
  "example_params =
     [(''means3D'', Tensor \<lparr>t_dtype = TFloat32, t_device = ''cuda'', t_requires_grad = True,
                                  t_shape = [2, 3], t_data = [0, 1, 2, 3, 4, 5]\<rparr>),
      (''semantic_ids'', Tensor \<lparr>t_dtype = TInt64, t_device = ''cuda'', t_requires_grad = False,
                                       t_shape = [2, 1], t_data = [7, 9]\<rparr>)]"

definition example_locals :: "pyval \<Rightarrow> int locals" where
  "example_locals sem =
     \<lparr>l_config = dict_set (example_config sem) ''data'' (PDict (example_data_defaults sem)),
      l_device = PStr ''cuda:0'',
      l_results_dir = ''./experiments/Replica/room0_0'',
      l_scene_path = PStr ''./experiments/Replica/room0_0/params.npz'',
      l_dataset_config = (example_data_defaults sem),
      l_load_semantics = sem,
      l_params_opt_exclude = {''semantic_ids''},
      l_dataset = (example_dataset sem),
      l_num_frames = PInt 5,
      l_params = example_params,
      l_eval_dir = ''./experiments/Replica/room0_0/eval_train'',
      l_wandb_name = ''room0_0_Train_Split''\<rparr>"

definition example_run :: "pyval \<Rightarrow> wandb_init_args" where
  "example_run sem =
     \<lparr>wi_project = PStr ''SGS-SLAM'', wi_entity = PStr ''lab'', wi_group = PStr ''Replica'',
      wi_name = ''room0_0_Train_Split'',
      wi_config = dict_set (example_config sem) ''data'' (PDict (example_data_defaults sem))\<rparr>"

definition example_args :: "pyval \<Rightarrow> int eval_args" where
  "example_args sem =
     \<lparr>ea_dataset = (example_dataset sem), ea_params = example_params, ea_num_frames = PInt 5,
      ea_eval_dir = ''./experiments/Replica/room0_0/eval_train'',
      ea_sil_thres = PFloat (1 / 2), ea_wandb_run = Some (example_run sem),
      ea_wandb_save_qual = Some (PBool True), ea_mapping_iters = PInt 60,
      ea_add_new_gaussians = PBool True, ea_load_semantics = sem,
      ea_eval_every = PInt 5, ea_save_frames = True\<rparr>"

definition example_prepare_calls :: "pyval \<Rightarrow> int event list" where
  "example_prepare_calls sem =
     [SeedEverything (PInt 0), TorchDevice (PStr ''cuda:0''), CudaSetDevice 0,
      Makedirs ''./experiments/Replica/room0_0'' True,
      ShutilCopy ''configs/replica.py'' ''./experiments/Replica/room0_0/config.py'',
      Print ''Loading Dataset ...'', Construct (example_dataset sem), Len (example_dataset sem),
      NpLoad (PStr ''./experiments/Replica/room0_0/params.npz'') True]"

text \<open>The exception that the evaluation call \<open>ev\<close> raises on the machine \<open>env\<close>.\<close>

fun raised_by :: "'a env \<Rightarrow> 'a event \<Rightarrow> pyerr option" where
  "raised_by env (Eval a) = eval_exc env a"
| "raised_by env (EvalNvs a) = eval_nvs_exc env a"
| "raised_by env _ = None"


text \<open>
  A conversion to the floating-point types without rounding, and two parameter dicts:
  one whose \<^verbatim>\<open>semantic_ids\<close> has one dimension, one whose \<^verbatim>\<open>semantic_ids\<close> is of type
  uint8.
\<close>

definition plain_float :: "torch_dtype \<Rightarrow> pynum \<Rightarrow> pyerr + rat" where
  "plain_float dt v = Inr (pynum_value v)"

definition flat_ids_params :: "(string \<times> rat tensor) list" where
  "flat_ids_params =
     [(''means3D'', \<lparr>t_dtype = TFloat32, t_device = ''cuda'', t_requires_grad = True,
                      t_shape = [4, 3], t_data = [10, 11, 12, 20, 21, 22, 30, 31, 32, 40, 41, 42]\<rparr>),
      (''semantic_ids'', \<lparr>t_dtype = TInt64, t_device = ''cuda'', t_requires_grad = False,
                          t_shape = [4], t_data = [0, 1, 2, 0]\<rparr>)]"

definition byte_ids_params :: "(string \<times> rat tensor) list" where
  "byte_ids_params =
     [(''semantic_ids'', \<lparr>t_dtype = TUInt8, t_device = ''cuda'', t_requires_grad = False,
                          t_shape = [3, 1], t_data = [0, 255, 7]\<rparr>)]"


fun is_construct :: "'a event \<Rightarrow> bool" where
  "is_construct (Construct ds) = True"
| "is_construct _ = False"

text \<open>
  A second configuration, for the novel-view split of a run that is finished: the
  checkpoint is loaded, tracking is off, the archive has a path of its own, both defaults
  are overridden, the number of frames is given and there is no key \<^verbatim>\<open>load_semantics\<close>;
  and the values the main block computes for it.
\<close>

definition nvs_data :: pydict where
  "nvs_data =
     [(''dataset_name'', PStr ''Replica''), (''basedir'', PStr ''./data/Replica''),
      (''sequence'', PStr ''room0''), (''start'', PInt 0), (''end'', PInt (- 1)),
      (''stride'', PInt 1), (''desired_image_height'', PInt 680),
      (''desired_image_width'', PInt 1200), (''num_frames'', PInt 100),
      (''ignore_bad'', PBool True), (''use_train_split'', PBool False)]"

definition nvs_config :: pydict where
  "nvs_config =
     [(''seed'', PInt 0), (''primary_device'', PStr ''cuda:0''),
      (''workdir'', PStr ''./experiments/Replica''), (''run_name'', PStr ''room0_0''),
      (''load_checkpoint'', PBool True), (''use_wandb'', PBool False), (''eval_every'', PInt 5),
      (''scene_path'', PStr ''./checkpoints/room0/params.npz''),
      (''mapping'', PDict [(''sil_thres'', PFloat (1 / 2)), (''num_iters'', PInt 60),
                           (''add_new_gaussians'', PBool True)]),
      (''wandb'', PDict [(''name'', PStr ''room0_0'')]),
      (''data'', PDict nvs_data)]"

definition nvs_dataset :: dataset where
  "nvs_dataset =
     \<lparr>ds_class = ReplicaDataset,
      ds_config_dict = Some (PDict [(''dataset_name'', PStr ''Replica'')]),
      ds_basedir = PStr ''./data/Replica'', ds_sequence = ''room0'',
      ds_kwargs = small_kwargs\<lparr>kw_ignore_bad := PBool True, kw_use_train_split := PBool False\<rparr>\<rparr>"

definition nvs_params :: "(string \<times> int param) list" where
  "nvs_params =
     [(''means3D'', Tensor \<lparr>t_dtype = TFloat32, t_device = ''cuda'', t_requires_grad = True,
                            t_shape = [2, 3], t_data = [0, 1, 2, 3, 4, 5]\<rparr>),
      (''semantic_ids'', Tensor \<lparr>t_dtype = TFloat32, t_device = ''cuda'', t_requires_grad = True,
                                 t_shape = [2, 1], t_data = [7, 9]\<rparr>)]"

definition nvs_locals :: "int locals" where
  "nvs_locals =
     \<lparr>l_config = nvs_config,
      l_device = PStr ''cuda:0'',
      l_results_dir = ''./experiments/Replica/room0_0'',
      l_scene_path = PStr ''./checkpoints/room0/params.npz'',
      l_dataset_config = nvs_data,
      l_load_semantics = PBool False,
      l_params_opt_exclude = {},
      l_dataset = nvs_dataset,
      l_num_frames = PInt 100,
      l_params = nvs_params,
      l_eval_dir = ''./experiments/Replica/room0_0/eval_nvs'',
      l_wandb_name = ''room0_0_NVS_Split''\<rparr>"

definition nvs_args :: "int eval_args" where
  "nvs_args =
     \<lparr>ea_dataset = nvs_dataset, ea_params = nvs_params, ea_num_frames = PInt 100,
      ea_eval_dir = ''./experiments/Replica/room0_0/eval_nvs'',
      ea_sil_thres = PFloat (1 / 2), ea_wandb_run = None,
      ea_wandb_save_qual = None, ea_mapping_iters = PInt 60,
      ea_add_new_gaussians = PBool True, ea_load_semantics = PBool False,
      ea_eval_every = PInt 5, ea_save_frames = True\<rparr>"

definition nvs_calls :: "int event list" where
  "nvs_calls =
     [SeedEverything (PInt 0), TorchDevice (PStr ''cuda:0''), CudaSetDevice 0,
      Print ''Loading Dataset ...'', Construct nvs_dataset,
      NpLoad (PStr ''./checkpoints/room0/params.npz'') True, EvalNvs nvs_args]"

section \<open>Properties\<close>

subsection \<open>Dictionaries and results\<close>

lemma map_of_dict_set: "map_of (dict_set d k v) = (map_of d)(k \<mapsto> v)"
  by (induction d k v rule: dict_set.induct) auto

lemma keys_dict_set_mem: "k \<in> fst ` set d \<Longrightarrow> map fst (dict_set d k v) = map fst d"
  by (induction d k v rule: dict_set.induct) auto

lemma set_keys_dict_set: "fst ` set (dict_set d k v) = insert k (fst ` set d)"
  by (induction d k v rule: dict_set.induct) auto

lemma distinct_dict_set: "distinct (map fst d) \<Longrightarrow> distinct (map fst (dict_set d k v))"
proof (induction d k v rule: dict_set.induct)
  case (1 k v)
  then show ?case by simp
next
  case (2 k' v' d k v)
  then show ?case
    using set_keys_dict_set [of d k v] by (auto simp: image_iff)
qed

lemma dict_set_map: "dict_set (map (\<lambda>(k, a). (k, f a)) d) k (f v) = map (\<lambda>(k, a). (k, f a)) (dict_set d k v)"
  by (induction d k v rule: dict_set.induct) auto

lemma foldl_dict_set_distinct:
  "distinct (map fst d) \<Longrightarrow> distinct (map fst (foldl (\<lambda>d (k, v). dict_set d k v) d kvs))"
  by (induction kvs arbitrary: d) (auto simp: distinct_dict_set)

lemma distinct_py_dict: "distinct (map fst (py_dict kvs))"
  unfolding py_dict_def by (rule foldl_dict_set_distinct) simp

lemma foldl_dict_set_map:
  "foldl (\<lambda>d (k, v). dict_set d k v) (map (\<lambda>(k, a). (k, f a)) d) (map (\<lambda>(k, a). (k, f a)) kvs)
     = map (\<lambda>(k, a). (k, f a)) (foldl (\<lambda>d (k, v). dict_set d k v) d kvs)"
  by (induction kvs arbitrary: d) (auto simp: dict_set_map)

lemma py_dict_map: "py_dict (map (\<lambda>(k, a). (k, f a)) kvs) = map (\<lambda>(k, a). (k, f a)) (py_dict kvs)"
  unfolding py_dict_def using foldl_dict_set_map [of f "[]" kvs] by simp

lemma map_of_map_val: "map_of (map (\<lambda>(k, a). (k, f a)) d) k = map_option f (map_of d k)"
  by (induction d) auto

lemma dict_get_Some: "dict_get d k = Inr v \<longleftrightarrow> map_of d k = Some v"
  by (auto simp: dict_get_def split: option.splits)

lemma load_loop_result:
  "load_loop env excl device ks params = Inr params' \<Longrightarrow> distinct ks \<Longrightarrow>
     map fst params' = map fst params \<and>
     (\<forall>k. k \<notin> set ks \<longrightarrow> map_of params' k = map_of params k) \<and>
     (\<forall>k \<in> set ks. \<exists>v t. map_of params k = Some v \<and> convert_param env excl device k v = Inr t
                          \<and> map_of params' k = Some (Tensor t))"
proof (induction ks arbitrary: params)
  case Nil
  then show ?case by simp
next
  case (Cons k ks)
  from Cons.prems obtain v t where
    v: "map_of params k = Some v" and t: "convert_param env excl device k v = Inr t"
    and rest: "load_loop env excl device ks (dict_set params k (Tensor t)) = Inr params'"
    by (auto simp: dict_get_Some split: sum.splits)
  from Cons.prems have d: "distinct ks" and nk: "k \<notin> set ks" by auto
  from v have kin: "k \<in> fst ` set params" by (metis map_of_eq_None_iff option.distinct(1))
  note ih = Cons.IH [OF rest d]
  show ?case
  proof (intro conjI allI impI ballI)
    show "map fst params' = map fst params"
      using ih kin by (simp add: keys_dict_set_mem)
  next
    fix j assume "j \<notin> set (k # ks)"
    then show "map_of params' j = map_of params j"
      using ih by (simp add: map_of_dict_set)
  next
    fix j assume j: "j \<in> set (k # ks)"
    show "\<exists>v t. map_of params j = Some v \<and> convert_param env excl device j v = Inr t
                 \<and> map_of params' j = Some (Tensor t)"
    proof (cases "j = k")
      case True
      then show ?thesis using v t ih nk by (simp add: map_of_dict_set)
    next
      case False
      with j have "j \<in> set ks" by simp
      with ih have "\<exists>v t. map_of (dict_set params k (Tensor t0)) j = Some v \<and> convert_param env excl device j v = Inr t
                 \<and> map_of params' j = Some (Tensor t)" if "t0 = t" for t0
        using that by blast
      with False show ?thesis by (simp add: map_of_dict_set)
    qed
  qed
qed

lemma convert_param_array:
  assumes "convert_param env excl device k (NdArray a) = Inr t"
  shows "t_device t = device \<and> t_shape t = nd_shape a
       \<and> (k \<notin> excl \<longrightarrow> t_dtype t = TFloat32 \<and> t_requires_grad t)
       \<and> (k \<in> excl \<longrightarrow> \<not> t_requires_grad t \<and> torch_dtype_of (nd_dtype a) = Some (t_dtype t)
                          \<and> t_data t = nd_data a)"
  using assms
  by (auto simp: convert_param_def and_then_def tensor_to_def tensor_float_def set_requires_grad_def
           split: option.splits if_splits)


text \<open>
  Claim C1. When \<^verbatim>\<open>load_scene_data\<close> returns, the result has the keys of the archive,
  in their order, and every key holds a tensor on the device given to the function, with
  the shape of the array it was read from. A key outside the exclusion set holds a
  float32 tensor with gradient tracking. A key in the exclusion set holds a tensor without
  gradient tracking that has the element type and the elements of the array: it is not
  converted to floating point. (The main block gives no device, so the device is the
  default \<^verbatim>\<open>"cuda"\<close>.)
\<close>

theorem load_scene_data_tensors:
  assumes "snd (load_scene_data env scene_path excl device) = Inr params"
  shows "\<exists>archive. np_load_res env scene_path = Inr archive \<and>
           map fst params = map fst (py_dict archive) \<and>
           (\<forall>(k, a) \<in> set (py_dict archive).
              \<exists>t. map_of params k = Some (Tensor t) \<and> t_device t = device \<and> t_shape t = nd_shape a \<and>
                  (k \<notin> excl \<longrightarrow> t_dtype t = TFloat32 \<and> t_requires_grad t) \<and>
                  (k \<in> excl \<longrightarrow> \<not> t_requires_grad t \<and> torch_dtype_of (nd_dtype a) = Some (t_dtype t)
                                   \<and> t_data t = nd_data a))"
proof -
  from assms obtain archive where ar: "np_load_res env scene_path = Inr archive"
    by (cases "np_load_res env scene_path") (auto simp: load_scene_data_def bnd_def call_def)
  define params0 where "params0 = map (\<lambda>(k, a). (k, NdArray a)) (py_dict archive)"
  have p0: "py_dict (map (\<lambda>(k, a). (k, NdArray a)) archive) = params0"
    unfolding params0_def by (rule py_dict_map)
  have keys0: "map fst params0 = map fst (py_dict archive)"
    unfolding params0_def by (simp add: case_prod_unfold)
  from assms ar p0 have ll: "load_loop env excl device (map fst params0) params0 = Inr params"
    by (simp add: load_scene_data_def bnd_def call_def lift_def)
  have dk: "distinct (map fst params0)"
    using distinct_py_dict [of archive] keys0 by simp
  note res = load_loop_result [OF ll dk]
  have "\<exists>t. map_of params k = Some (Tensor t) \<and> t_device t = device \<and> t_shape t = nd_shape a \<and>
            (k \<notin> excl \<longrightarrow> t_dtype t = TFloat32 \<and> t_requires_grad t) \<and>
            (k \<in> excl \<longrightarrow> \<not> t_requires_grad t \<and> torch_dtype_of (nd_dtype a) = Some (t_dtype t)
                             \<and> t_data t = nd_data a)"
    if ka: "(k, a) \<in> set (py_dict archive)" for k a
  proof -
    from ka have kin: "k \<in> set (map fst params0)" using keys0 by force
    have "map_of (py_dict archive) k = Some a"
      using ka distinct_py_dict [of archive] by simp
    then have m0: "map_of params0 k = Some (NdArray a)"
      unfolding params0_def by (simp add: map_of_map_val)
    from res kin obtain v t where "map_of params0 k = Some v"
      and c: "convert_param env excl device k v = Inr t" and m: "map_of params k = Some (Tensor t)"
      by blast
    with m0 have "convert_param env excl device k (NdArray a) = Inr t" by simp
    from convert_param_array [OF this] m show ?thesis by blast
  qed
  with ar res keys0 show ?thesis by auto
qed

theorem load_scene_data_tensors_witness:
  "snd (load_scene_data (quiet_env small_archive) (PStr ''run/params.npz'') {''semantic_ids''} ''cuda'')
     = Inr [(''means3D'', Tensor \<lparr>t_dtype = TFloat32, t_device = ''cuda'', t_requires_grad = True,
                                  t_shape = [2, 3], t_data = [0, 1, 2, 3, 4, 5]\<rparr>),
            (''semantic_ids'', Tensor \<lparr>t_dtype = TInt64, t_device = ''cuda'', t_requires_grad = False,
                                       t_shape = [2, 1], t_data = [7, 9]\<rparr>)]
   \<and> (\<exists>archive. np_load_res (quiet_env small_archive) (PStr ''run/params.npz'') = Inr archive \<and>
           [''means3D'', ''semantic_ids''] = map fst (py_dict archive))"
proof -
  have h: "snd (load_scene_data (quiet_env small_archive) (PStr ''run/params.npz'') {''semantic_ids''} ''cuda'')
     = Inr [(''means3D'', Tensor \<lparr>t_dtype = TFloat32, t_device = ''cuda'', t_requires_grad = True,
                                  t_shape = [2, 3], t_data = [0, 1, 2, 3, 4, 5]\<rparr>),
            (''semantic_ids'', Tensor \<lparr>t_dtype = TInt64, t_device = ''cuda'', t_requires_grad = False,
                                       t_shape = [2, 1], t_data = [7, 9]\<rparr>)]"
    by (simp add: load_scene_data_def quiet_env_def small_archive_def bnd_def call_def lift_def
          py_dict_def dict_get_def convert_param_def and_then_def tensor_to_def tensor_float_def
          set_requires_grad_def)
  from load_scene_data_tensors [OF h] h show ?thesis by auto
qed

subsection \<open>Filtering by semantic id\<close>

lemma filter_loop_result:
  "distinct ks \<Longrightarrow>
   \<forall>k \<in> set ks. \<exists>t t'. map_of params k = Some t \<and> tensor_mask_index t msk = Inr t' \<Longrightarrow>
   \<exists>params'. filter_loop msk ks params = Inr params' \<and>
     map fst params' = map fst params \<and>
     (\<forall>k. k \<notin> set ks \<longrightarrow> map_of params' k = map_of params k) \<and>
     (\<forall>k \<in> set ks. \<exists>t t'. map_of params k = Some t \<and> tensor_mask_index t msk = Inr t'
                           \<and> map_of params' k = Some t')"
proof (induction ks arbitrary: params)
  case Nil
  then show ?case by simp
next
  case (Cons k ks)
  from Cons.prems obtain t t' where
    t: "map_of params k = Some t" and t': "tensor_mask_index t msk = Inr t'"
    by auto
  from Cons.prems have d: "distinct ks" and nk: "k \<notin> set ks" by auto
  from t have kin: "k \<in> fst ` set params" by (metis map_of_eq_None_iff option.distinct(1))
  have pre: "\<forall>j \<in> set ks. \<exists>u u'. map_of (dict_set params k t') j = Some u \<and> tensor_mask_index u msk = Inr u'"
    using Cons.prems(2) nk by (auto simp: map_of_dict_set)
  from Cons.IH [OF d pre] obtain params' where
    r: "filter_loop msk ks (dict_set params k t') = Inr params'"
    and keys: "map fst params' = map fst (dict_set params k t')"
    and other: "\<forall>j. j \<notin> set ks \<longrightarrow> map_of params' j = map_of (dict_set params k t') j"
    and these: "\<forall>j \<in> set ks. \<exists>u u'. map_of (dict_set params k t') j = Some u \<and> tensor_mask_index u msk = Inr u'
                           \<and> map_of params' j = Some u'"
    by blast
  have run: "filter_loop msk (k # ks) params = Inr params'"
    using t t' r by (simp add: dict_get_def)
  have a: "map fst params' = map fst params"
    using keys kin by (simp add: keys_dict_set_mem)
  have b: "\<forall>j. j \<notin> set (k # ks) \<longrightarrow> map_of params' j = map_of params j"
    using other by (simp add: map_of_dict_set)
  have c: "\<exists>u u'. map_of params j = Some u \<and> tensor_mask_index u msk = Inr u' \<and> map_of params' j = Some u'"
    if j: "j \<in> set (k # ks)" for j
  proof (cases "j = k")
    case True
    then show ?thesis using t t' other nk by (simp add: map_of_dict_set)
  next
    case False
    with j have js: "j \<in> set ks" by simp
    with these obtain u u' where "map_of (dict_set params k t') j = Some u"
      "tensor_mask_index u msk = Inr u'" "map_of params' j = Some u'" by blast
    with False show ?thesis by (simp add: map_of_dict_set)
  qed
  from run a b c show ?case by blast
qed

lemma flat_index_bound: "g < n \<Longrightarrow> i < m \<Longrightarrow> g * m + i < n * (m::nat)"
proof -
  assume g: "g < n" and i: "i < m"
  from g have "Suc g * m \<le> n * m" by (intro mult_le_mono1) simp
  with i show ?thesis by simp
qed

lemma and_then_Inr: "and_then (Inr x) f = f x"
  by (simp add: and_then_def)

lemma and_then_Inl: "and_then (Inl e) f = Inl e"
  by (simp add: and_then_def)

lemma and_then_assoc: "and_then (and_then r f) g = and_then r (\<lambda>x. and_then (f x) g)"
  by (cases r) (simp_all add: and_then_def)

lemma mask_index_rows:
  assumes "t_shape msk = [n]" and "t_shape t \<noteq> []" and "hd (t_shape t) = n"
      and "t_device msk = ''cpu'' \<or> t_device msk = t_device t"
  shows "tensor_mask_index t msk =
           Inr (t\<lparr>t_shape := length (filter id (t_data msk)) # tl (t_shape t),
                  t_data := concat (map snd (filter fst (zip (t_data msk) (rows t))))\<rparr>)"
proof -
  from assms(2,3) obtain rest where s: "t_shape t = n # rest" by (cases "t_shape t") auto
  show ?thesis
    using assms(1,4) s by (auto simp: tensor_mask_index_def rows_def Let_def)
qed

lemma count_mask: "length (filter id (map P xs)) = length (filter P xs)"
  by (induction xs) auto

lemma select_mask:
  "map snd (filter fst (zip (map P xs) ys)) = map snd (filter (\<lambda>(x, r). P x) (zip xs ys))"
  by (induction xs arbitrary: ys) (auto simp: zip_Cons1 split: list.splits)

lemma remove_mask_column:
  assumes sh: "t_shape sid = [n, 1]" and len: "length (t_data sid) = n"
      and bs: "t_shape b = [1, length ids]" and bd: "t_data b = ids"
  shows "and_then (tensor_eq sid b) tensor_any_dim1
           = Inr \<lparr>t_dtype = TBool, t_device = t_device sid, t_requires_grad = False,
                  t_shape = [n], t_data = map (\<lambda>x. x \<in> set ids) (t_data sid)\<rparr>"
proof -
  let ?m = "length ids"
  define eq where
    "eq = map (\<lambda>f. t_data sid ! (f div ?m) = ids ! (if ?m = 1 then 0 else f mod ?m)) [0 ..< n * ?m]"
  have e: "tensor_eq sid b
             = Inr \<lparr>t_dtype = TBool, t_device = t_device sid, t_requires_grad = False,
                    t_shape = [n, ?m], t_data = eq\<rparr>"
    using sh bs bd by (simp add: tensor_eq_def Let_def eq_def)
  have cell: "list_ex (\<lambda>i. eq ! (g * ?m + i)) [0 ..< ?m] = (t_data sid ! g \<in> set ids)" if g: "g < n" for g
  proof -
    have "eq ! (g * ?m + i) = (t_data sid ! g = ids ! i)" if i: "i < ?m" for i
    proof -
      have b: "g * ?m + i < n * ?m" using g i by (rule flat_index_bound)
      have nz: "?m \<noteq> 0" using i by auto
      have d: "(g * ?m + i) div ?m = g" using i nz by (simp add: div_mult_self3)
      have m: "(g * ?m + i) mod ?m = i" using i by simp
      have z: "?m = 1 \<Longrightarrow> i = 0" using i by simp
      show ?thesis unfolding eq_def using b d m z by (auto simp: nth_map)
    qed
    then have "list_ex (\<lambda>i. eq ! (g * ?m + i)) [0 ..< ?m] = (\<exists>i < ?m. t_data sid ! g = ids ! i)"
      by (auto simp: list_ex_iff)
    also have "\<dots> = (t_data sid ! g \<in> set ids)"
      by (auto simp: in_set_conv_nth)
    finally show ?thesis .
  qed
  have "map (\<lambda>g. list_ex (\<lambda>i. eq ! (g * ?m + i)) [0 ..< ?m]) [0 ..< n]
          = map (\<lambda>g. t_data sid ! g \<in> set ids) [0 ..< n]"
    using cell by simp
  also have "\<dots> = map (\<lambda>x. x \<in> set ids) (t_data sid)"
  proof -
    have "map (\<lambda>x. x \<in> set ids) (t_data sid)
            = map (\<lambda>x. x \<in> set ids) (map ((!) (t_data sid)) [0 ..< length (t_data sid)])"
      by (simp only: map_nth)
    then show ?thesis using len by (simp add: comp_def)
  qed
  finally have dat: "map (\<lambda>g. list_ex (\<lambda>i. eq ! (g * ?m + i)) [0 ..< ?m]) [0 ..< n]
          = map (\<lambda>x. x \<in> set ids) (t_data sid)" .
  show ?thesis
    unfolding e by (simp add: and_then_def dat)
qed

lemma filter_semantic_params_column:
  assumes dk: "distinct (map fst params)"
      and sid: "map_of params ''semantic_ids'' = Some sid"
      and sh: "t_shape sid = [n, 1]" and len: "length (t_data sid) = n"
      and al: "\<forall>(k, t) \<in> set params. k \<notin> {''cam_unnorm_rots'', ''cam_trans''} \<longrightarrow>
                 t_shape t \<noteq> [] \<and> hd (t_shape t) = n \<and>
                 (t_device sid = ''cpu'' \<or> t_device t = t_device sid)"
      and conv: "torch_scalars to_float (t_dtype sid) ids = Inr cs"
  shows "\<exists>params'. filter_semantic_params to_float params ids = Inr params' \<and>
           map fst params' = map fst params \<and>
           (\<forall>(k, t) \<in> set params.
              (k \<in> {''cam_unnorm_rots'', ''cam_trans''} \<longrightarrow> map_of params' k = Some t) \<and>
              (k \<notin> {''cam_unnorm_rots'', ''cam_trans''} \<longrightarrow>
                 map_of params' k =
                   Some (t\<lparr>t_shape := length (filter (\<lambda>x. x \<notin> set cs) (t_data sid)) # tl (t_shape t),
                           t_data := concat (map snd (filter (\<lambda>(x, r). x \<notin> set cs)
                                                 (zip (t_data sid) (rows t))))\<rparr>)))"
proof -
  define keep where
    "keep = \<lparr>t_dtype = TBool, t_device = t_device sid, t_requires_grad = False,
             t_shape = [n], t_data = map (\<lambda>x. x \<notin> set cs) (t_data sid)\<rparr>"
  define keys where
    "keys = filter (\<lambda>k. k \<notin> set [''cam_unnorm_rots'', ''cam_trans'']) (map fst params)"
  define masked where
    "masked t = t\<lparr>t_shape := length (filter (\<lambda>x. x \<notin> set cs) (t_data sid)) # tl (t_shape t),
                  t_data := concat (map snd (filter (\<lambda>(x, r). x \<notin> set cs)
                                        (zip (t_data sid) (rows t))))\<rparr>" for t :: "rat tensor"
  have has: "dict_has params ''semantic_ids''" and get: "dict_get params ''semantic_ids'' = Inr sid"
    using sid by (simp_all add: dict_has_def dict_get_def)
  define b where
    "b = \<lparr>t_dtype = t_dtype sid, t_device = t_device sid, t_requires_grad = False,
            t_shape = [1, length cs], t_data = cs\<rparr>"
  have it: "ids_tensor to_float sid ids = Inr b"
    using conv by (simp add: ids_tensor_def and_then_Inr b_def)
  have "filter_semantic_params to_float params ids =
          and_then (and_then (tensor_eq sid b) tensor_any_dim1)
            (\<lambda>to_remove_mask. filter_loop (tensor_not to_remove_mask) keys params)"
    using has get it
    by (simp add: filter_semantic_params_def and_then_Inr and_then_assoc keys_def
             del: tensor_any_dim1.simps)
  moreover have "and_then (tensor_eq sid b) tensor_any_dim1
           = Inr \<lparr>t_dtype = TBool, t_device = t_device sid, t_requires_grad = False,
                  t_shape = [n], t_data = map (\<lambda>x. x \<in> set cs) (t_data sid)\<rparr>"
    by (rule remove_mask_column [OF sh len]) (simp_all add: b_def)
  ultimately have run: "filter_semantic_params to_float params ids = filter_loop keep keys params"
    by (simp add: and_then_Inr tensor_not_def keep_def comp_def)
  have dkeys: "distinct keys" using dk by (simp add: keys_def)
  have one: "tensor_mask_index t keep = Inr (masked t)"
    if "(k, t) \<in> set params" and "k \<in> set keys" for k t
  proof -
    from that al have c: "t_shape t \<noteq> []" "hd (t_shape t) = n"
      "t_device sid = ''cpu'' \<or> t_device t = t_device sid"
      by (auto simp: keys_def)
    have "tensor_mask_index t keep =
            Inr (t\<lparr>t_shape := length (filter id (t_data keep)) # tl (t_shape t),
                   t_data := concat (map snd (filter fst (zip (t_data keep) (rows t))))\<rparr>)"
      by (rule mask_index_rows [where n = n]) (use c in \<open>auto simp: keep_def\<close>)
    then show ?thesis
      by (simp add: keep_def masked_def count_mask select_mask)
  qed
  have pre: "\<forall>k \<in> set keys. \<exists>t t'. map_of params k = Some t \<and> tensor_mask_index t keep = Inr t'"
  proof
    fix k assume k: "k \<in> set keys"
    then have "k \<in> fst ` set params" by (auto simp: keys_def)
    then obtain t where kt: "(k, t) \<in> set params" by force
    with dk have "map_of params k = Some t" by simp
    with one [OF kt k] show "\<exists>t t'. map_of params k = Some t \<and> tensor_mask_index t keep = Inr t'"
      by blast
  qed
  from filter_loop_result [OF dkeys pre] obtain params' where
    r: "filter_loop keep keys params = Inr params'"
    and ks: "map fst params' = map fst params"
    and other: "\<forall>k. k \<notin> set keys \<longrightarrow> map_of params' k = map_of params k"
    and these: "\<forall>k \<in> set keys. \<exists>t t'. map_of params k = Some t \<and> tensor_mask_index t keep = Inr t'
                           \<and> map_of params' k = Some t'"
    by blast
  have "(k \<in> {''cam_unnorm_rots'', ''cam_trans''} \<longrightarrow> map_of params' k = Some t) \<and>
        (k \<notin> {''cam_unnorm_rots'', ''cam_trans''} \<longrightarrow> map_of params' k = Some (masked t))"
    if kt: "(k, t) \<in> set params" for k t
  proof -
    from kt dk have m: "map_of params k = Some t" by simp
    show ?thesis
    proof (cases "k \<in> {''cam_unnorm_rots'', ''cam_trans''}")
      case True
      then have "k \<notin> set keys" by (auto simp: keys_def)
      with other m True show ?thesis by simp
    next
      case False
      with kt have k: "k \<in> set keys" by (force simp: keys_def)
      with these m obtain t' where "tensor_mask_index t keep = Inr t'" "map_of params' k = Some t'"
        by force
      with one [OF kt k] False show ?thesis by simp
    qed
  qed
  with run r ks show ?thesis
    unfolding masked_def by (intro exI [of _ params']) auto
qed

lemma filter_semantic_params_overflow:
  assumes "map_of params ''semantic_ids'' = Some sid"
      and "torch_scalars to_float (t_dtype sid) ids = Inl e"
  shows "filter_semantic_params to_float params ids = Inl e"
  using assms
  by (simp add: filter_semantic_params_def dict_has_def dict_get_def and_then_Inr and_then_Inl
        ids_tensor_def)

lemma convert_int_exact:
  "int_range dt = Some (lo, hi) \<Longrightarrow> lo \<le> i \<Longrightarrow> i \<le> hi \<Longrightarrow> convert_int dt lo hi i = Inr (of_int i)"
  by (cases dt) (auto simp: convert_int_def)

lemma torch_scalars_exact:
  "int_range dt = Some (lo, hi) \<Longrightarrow> \<forall>i \<in> set is. lo \<le> i \<and> i \<le> hi \<Longrightarrow>
     torch_scalars to_float dt (map NInt is) = Inr (map of_int is)"
proof (induction "is")
  case Nil
  then show ?case by simp
next
  case (Cons i "is")
  then have "dt \<noteq> TBool" by auto
  with Cons show ?case by (simp add: convert_int_exact and_then_Inr)
qed

text \<open>
  Claim C2, amended. Let the parameter dict hold \<^verbatim>\<open>semantic_ids\<close> of shape (n, 1), and
  let every tensor other than \<^verbatim>\<open>cam_unnorm_rots\<close> and \<^verbatim>\<open>cam_trans\<close> have n as its
  first dimension and be on the device of \<^verbatim>\<open>semantic_ids\<close>. When the conversion of an
  id of the list to the element type of \<^verbatim>\<open>semantic_ids\<close> raises,
  \<^verbatim>\<open>filter_semantic_params\<close> raises that exception. Otherwise it returns a dict with
  the same keys in which the two camera tensors are unchanged and every other tensor
  keeps, in order, exactly the rows whose semantic id is none of the converted ids: the
  same rows for every tensor. Integer ids within the range of an integer element type
  are converted to themselves. For the ids [0, 1, 2, 0] and the list [0] two rows
  remain (the witness).
\<close>

theorem filter_semantic_params_rows:
  assumes dk: "distinct (map fst params)"
      and sid: "map_of params ''semantic_ids'' = Some sid"
      and sh: "t_shape sid = [n, 1]" and len: "length (t_data sid) = n"
      and al: "\<forall>(k, t) \<in> set params. k \<notin> {''cam_unnorm_rots'', ''cam_trans''} \<longrightarrow>
                 t_shape t \<noteq> [] \<and> hd (t_shape t) = n \<and>
                 (t_device sid = ''cpu'' \<or> t_device t = t_device sid)"
  shows "(case torch_scalars to_float (t_dtype sid) ids of
            Inl e \<Rightarrow> filter_semantic_params to_float params ids = Inl e
          | Inr cs \<Rightarrow>
              \<exists>params'. filter_semantic_params to_float params ids = Inr params' \<and>
           map fst params' = map fst params \<and>
           (\<forall>(k, t) \<in> set params.
              (k \<in> {''cam_unnorm_rots'', ''cam_trans''} \<longrightarrow> map_of params' k = Some t) \<and>
              (k \<notin> {''cam_unnorm_rots'', ''cam_trans''} \<longrightarrow>
                 map_of params' k =
                   Some (t\<lparr>t_shape := length (filter (\<lambda>x. x \<notin> set cs) (t_data sid)) # tl (t_shape t),
                           t_data := concat (map snd (filter (\<lambda>(x, r). x \<notin> set cs)
                                                 (zip (t_data sid) (rows t))))\<rparr>))))
       \<and> (\<forall>lo hi is. int_range (t_dtype sid) = Some (lo, hi) \<and> ids = map NInt is
                      \<and> (\<forall>i \<in> set is. lo \<le> i \<and> i \<le> hi)
             \<longrightarrow> torch_scalars to_float (t_dtype sid) ids = Inr (map of_int is))"
proof (intro conjI allI impI)
  show "case torch_scalars to_float (t_dtype sid) ids of
            Inl e \<Rightarrow> filter_semantic_params to_float params ids = Inl e
          | Inr cs \<Rightarrow>
              \<exists>params'. filter_semantic_params to_float params ids = Inr params' \<and>
           map fst params' = map fst params \<and>
           (\<forall>(k, t) \<in> set params.
              (k \<in> {''cam_unnorm_rots'', ''cam_trans''} \<longrightarrow> map_of params' k = Some t) \<and>
              (k \<notin> {''cam_unnorm_rots'', ''cam_trans''} \<longrightarrow>
                 map_of params' k =
                   Some (t\<lparr>t_shape := length (filter (\<lambda>x. x \<notin> set cs) (t_data sid)) # tl (t_shape t),
                           t_data := concat (map snd (filter (\<lambda>(x, r). x \<notin> set cs)
                                                 (zip (t_data sid) (rows t))))\<rparr>)))"
  proof (cases "torch_scalars to_float (t_dtype sid) ids")
    case (Inl e)
    with filter_semantic_params_overflow [OF sid Inl] show ?thesis by simp
  next
    case (Inr cs)
    with filter_semantic_params_column [OF dk sid sh len al Inr] show ?thesis by simp
  qed
next
  fix lo hi "is"
  assume "int_range (t_dtype sid) = Some (lo, hi) \<and> ids = map NInt is
            \<and> (\<forall>i \<in> set is. lo \<le> i \<and> i \<le> hi)"
  then show "torch_scalars to_float (t_dtype sid) ids = Inr (map of_int is)"
    using torch_scalars_exact [of "t_dtype sid" lo hi "is" to_float] by simp
qed


theorem filter_semantic_params_rows_witness:
  "torch_scalars plain_float TInt64 [NInt 0] = Inr [0]
   \<and> filter_semantic_params plain_float small_params [NInt 0] =
     Inr [(''means3D'', \<lparr>t_dtype = TFloat32, t_device = ''cuda'', t_requires_grad = True,
                          t_shape = [2, 3], t_data = [20, 21, 22, 30, 31, 32]\<rparr>),
          (''semantic_ids'', \<lparr>t_dtype = TInt64, t_device = ''cuda'', t_requires_grad = False,
                              t_shape = [2, 1], t_data = [1, 2]\<rparr>),
          (''cam_unnorm_rots'', \<lparr>t_dtype = TFloat32, t_device = ''cuda'', t_requires_grad = True,
                                 t_shape = [1, 4, 2], t_data = [1, 1, 0, 0, 0, 0, 0, 0]\<rparr>),
          (''cam_trans'', \<lparr>t_dtype = TFloat32, t_device = ''cuda'', t_requires_grad = True,
                           t_shape = [1, 3, 2], t_data = [0, 5, 0, 6, 0, 7]\<rparr>)]"
proof -
  let ?sid = "\<lparr>t_dtype = TInt64, t_device = ''cuda'', t_requires_grad = False,
               t_shape = [4, 1], t_data = [0, 1, 2, 0 :: rat]\<rparr>"
  have dk: "distinct (map fst small_params)" by (simp add: small_params_def)
  have sid: "map_of small_params ''semantic_ids'' = Some ?sid" by (simp add: small_params_def)
  have sh: "t_shape ?sid = [4, 1]" and len: "length (t_data ?sid) = 4" by simp_all
  have al: "\<forall>(k, t) \<in> set small_params. k \<notin> {''cam_unnorm_rots'', ''cam_trans''} \<longrightarrow>
                 t_shape t \<noteq> [] \<and> hd (t_shape t) = 4 \<and>
                 (t_device ?sid = ''cpu'' \<or> t_device t = t_device ?sid)"
    by (simp add: small_params_def)
  have conv: "torch_scalars plain_float (t_dtype ?sid) [NInt 0] = Inr [0]"
    by (simp add: convert_int_def and_then_Inr)
  from filter_semantic_params_rows [OF dk sid sh len al, of plain_float "[NInt 0]"] conv
  obtain params' where r: "filter_semantic_params plain_float small_params [NInt 0] = Inr params'"
    and k: "map fst params' = map fst small_params"
    and v: "\<forall>(k, t) \<in> set small_params.
              (k \<in> {''cam_unnorm_rots'', ''cam_trans''} \<longrightarrow> map_of params' k = Some t) \<and>
              (k \<notin> {''cam_unnorm_rots'', ''cam_trans''} \<longrightarrow>
                 map_of params' k =
                   Some (t\<lparr>t_shape := length (filter (\<lambda>x. x \<notin> set [0]) (t_data ?sid)) # tl (t_shape t),
                           t_data := concat (map snd (filter (\<lambda>(x, r). x \<notin> set [0])
                                                 (zip (t_data ?sid) (rows t))))\<rparr>))"
    by auto
  from k obtain a b c d where p: "params' = [(''means3D'', a), (''semantic_ids'', b), (''cam_unnorm_rots'', c), (''cam_trans'', d)]"
    by (auto simp: small_params_def map_eq_Cons_conv)
  from v conv show ?thesis
    unfolding r p by (simp add: small_params_def rows_def chunks_def upt_rec)
qed

text \<open>
  With \<^verbatim>\<open>semantic_ids\<close> of shape (4,) beside a tensor of 4 rows the function raises an
  IndexError and removes nothing. With \<^verbatim>\<open>semantic_ids\<close> of type uint8 the list [-1]
  removes the row whose id is 255, and the list [256] raises a RuntimeError.
\<close>

theorem filter_semantic_params_counterexample:
  "filter_semantic_params plain_float flat_ids_params [NInt 0] = Inl IndexError
   \<and> filter_semantic_params plain_float byte_ids_params [NInt (- 1)] =
       Inr [(''semantic_ids'', \<lparr>t_dtype = TUInt8, t_device = ''cuda'', t_requires_grad = False,
                                t_shape = [2, 1], t_data = [0, 7]\<rparr>)]
   \<and> filter_semantic_params plain_float byte_ids_params [NInt 256] = Inl RuntimeError"
proof -
  let ?flat = "\<lparr>t_dtype = TInt64, t_device = ''cuda'', t_requires_grad = False,
                t_shape = [4], t_data = [0, 1, 2, 0 :: rat]\<rparr>"
  let ?byte = "\<lparr>t_dtype = TUInt8, t_device = ''cuda'', t_requires_grad = False,
                t_shape = [3, 1], t_data = [0, 255, 7 :: rat]\<rparr>"
  have it: "ids_tensor plain_float ?flat [NInt 0]
              = Inr \<lparr>t_dtype = TInt64, t_device = ''cuda'', t_requires_grad = False,
                     t_shape = [1, 1], t_data = [0]\<rparr>"
    by (simp add: ids_tensor_def convert_int_def and_then_Inr)
  have eq: "tensor_eq ?flat \<lparr>t_dtype = TInt64, t_device = ''cuda'', t_requires_grad = False,
                              t_shape = [1, 1], t_data = [0 :: rat]\<rparr>
              = Inr \<lparr>t_dtype = TBool, t_device = ''cuda'', t_requires_grad = False,
                     t_shape = [1, 4], t_data = [True, False, False, True]\<rparr>"
    by (simp add: tensor_eq_def Let_def upt_rec)
  have an: "tensor_any_dim1 \<lparr>t_dtype = TBool, t_device = ''cuda'', t_requires_grad = False,
                              t_shape = [1, 4], t_data = [True, False, False, True]\<rparr>
              = Inr \<lparr>t_dtype = TBool, t_device = ''cuda'', t_requires_grad = False,
                     t_shape = [1], t_data = [True]\<rparr>"
    by (simp add: upt_rec)
  have keep: "tensor_not \<lparr>t_dtype = TBool, t_device = ''cuda'', t_requires_grad = False,
                          t_shape = [1], t_data = [True]\<rparr>
                = \<lparr>t_dtype = TBool, t_device = ''cuda'', t_requires_grad = False,
                   t_shape = [1], t_data = [False]\<rparr>"
    by (simp add: tensor_not_def)
  have lp: "filter_loop \<lparr>t_dtype = TBool, t_device = ''cuda'', t_requires_grad = False,
                          t_shape = [1], t_data = [False]\<rparr>
              [''means3D'', ''semantic_ids''] flat_ids_params = Inl IndexError"
    by (simp add: flat_ids_params_def dict_get_def tensor_mask_index_def)
  have "filter_semantic_params plain_float flat_ids_params [NInt 0]
          = and_then (ids_tensor plain_float ?flat [NInt 0]) (\<lambda>b.
            and_then (tensor_eq ?flat b) (\<lambda>eq.
            and_then (tensor_any_dim1 eq) (\<lambda>m.
            filter_loop (tensor_not m) [''means3D'', ''semantic_ids''] flat_ids_params)))"
    by (simp add: filter_semantic_params_def flat_ids_params_def dict_has_def dict_get_def
          and_then_Inr Let_def del: tensor_any_dim1.simps)
  also have "\<dots> = Inl IndexError"
    by (simp only: it and_then_Inr eq an keep lp)
  finally have 1: "filter_semantic_params plain_float flat_ids_params [NInt 0] = Inl IndexError" .
  have dk: "distinct (map fst byte_ids_params)" by (simp add: byte_ids_params_def)
  have sid: "map_of byte_ids_params ''semantic_ids'' = Some ?byte" by (simp add: byte_ids_params_def)
  have sh: "t_shape ?byte = [3, 1]" and len: "length (t_data ?byte) = 3" by simp_all
  have al: "\<forall>(k, t) \<in> set byte_ids_params. k \<notin> {''cam_unnorm_rots'', ''cam_trans''} \<longrightarrow>
                 t_shape t \<noteq> [] \<and> hd (t_shape t) = 3 \<and>
                 (t_device ?byte = ''cpu'' \<or> t_device t = t_device ?byte)"
    by (simp add: byte_ids_params_def)
  have wrap: "torch_scalars plain_float (t_dtype ?byte) [NInt (- 1)] = Inr [255]"
    by (simp add: convert_int_def and_then_Inr)
  from filter_semantic_params_column [OF dk sid sh len al wrap]
  obtain params' where r: "filter_semantic_params plain_float byte_ids_params [NInt (- 1)] = Inr params'"
    and k: "map fst params' = map fst byte_ids_params"
    and v: "\<forall>(k, t) \<in> set byte_ids_params.
              (k \<in> {''cam_unnorm_rots'', ''cam_trans''} \<longrightarrow> map_of params' k = Some t) \<and>
              (k \<notin> {''cam_unnorm_rots'', ''cam_trans''} \<longrightarrow>
                 map_of params' k =
                   Some (t\<lparr>t_shape := length (filter (\<lambda>x. x \<notin> set [255]) (t_data ?byte)) # tl (t_shape t),
                           t_data := concat (map snd (filter (\<lambda>(x, r). x \<notin> set [255])
                                                 (zip (t_data ?byte) (rows t))))\<rparr>))"
    by auto
  from k obtain a where p: "params' = [(''semantic_ids'', a)]"
    by (auto simp: byte_ids_params_def map_eq_Cons_conv)
  from v have 2: "filter_semantic_params plain_float byte_ids_params [NInt (- 1)] =
       Inr [(''semantic_ids'', \<lparr>t_dtype = TUInt8, t_device = ''cuda'', t_requires_grad = False,
                                t_shape = [2, 1], t_data = [0, 7]\<rparr>)]"
    unfolding r p by (simp add: byte_ids_params_def rows_def chunks_def upt_rec)
  have over: "torch_scalars plain_float (t_dtype ?byte) [NInt 256] = Inl RuntimeError"
    by (simp add: convert_int_def and_then_Inl)
  have 3: "filter_semantic_params plain_float byte_ids_params [NInt 256] = Inl RuntimeError"
    by (rule filter_semantic_params_overflow [OF sid over])
  from 1 2 3 show ?thesis by blast
qed

subsection \<open>Dataset dispatch\<close>

lemma lower_names:
  "str_lower ''ICL'' = ''icl''" "str_lower ''Replica'' = ''replica''"
  "str_lower ''ReplicaV2'' = ''replicav2''" "str_lower ''AzureKinect'' = ''azurekinect''"
  "str_lower ''Scannet'' = ''scannet''" "str_lower ''Ai2thor'' = ''ai2thor''"
  "str_lower ''Record3D'' = ''record3d''" "str_lower ''Realsense'' = ''realsense''"
  "str_lower ''TUM'' = ''tum''" "str_lower ''ScannetPP'' = ''scannetpp''"
  by code_simp+

lemma bnd_lift_Inr: "bnd (lift (Inr a)) f = f a"
  by (simp add: bnd_def lift_def)

lemma bnd_lift_Inl: "bnd (lift (Inl e)) f = ([], Inl e)"
  by (simp add: bnd_def lift_def)

lemma bnd_ret: "bnd (ret a) f = f a"
  by (simp add: bnd_def ret_def)

lemma name_in_str:
  "py_getitem config_dict ''dataset_name'' = Inr (PStr s) \<Longrightarrow>
     name_in config_dict names = Inr (str_lower s \<in> set names)"
  by (simp add: name_in_def and_then_def)

text \<open>
  Claim C3, amended. For a dataset name that is a string: when it equals one of the ten
  supported names up to letter case, \<^verbatim>\<open>get_dataset\<close> makes exactly one constructor
  call, of the class of that name, with the config dict except for ScannetPP; when it
  equals \<^verbatim>\<open>azure\<close> up to letter case, it constructs the AzureKinect class; for every
  other string it raises the ValueError for an unknown dataset without any call.
\<close>

theorem get_dataset_variant:
  assumes "py_getitem config_dict ''dataset_name'' = Inr (PStr s)"
  shows "get_dataset env config_dict basedir sequence kw =
           (case spec_variant s of
              Some cls \<Rightarrow>
                construct_dataset env cls (if cls = ScannetPPDataset then None else Some config_dict)
                  basedir sequence kw
            | None \<Rightarrow>
                if str_lower s = ''azure''
                then construct_dataset env AzureKinectDataset (Some config_dict) basedir sequence kw
                else ([], Inl (ValueError (''Unknown dataset name '' @ s))))"
proof -
  have u: "unknown_dataset config_dict = ([], Inl (ValueError (''Unknown dataset name '' @ s)))"
    using assms by (simp add: unknown_dataset_def bnd_def lift_def)
  show ?thesis
    using assms
    by (simp add: get_dataset_def name_in_str bnd_lift_Inr u spec_variant_def
          supported_datasets_def lower_names)
qed


theorem get_dataset_variant_witness:
  "py_getitem (PDict [(''dataset_name'', PStr ''SCANNETPP'')]) ''dataset_name'' = Inr (PStr ''SCANNETPP'')
   \<and> get_dataset (quiet_env []) (PDict [(''dataset_name'', PStr ''SCANNETPP'')]) (PStr ''data'') ''room0''
         small_kwargs
       = construct_dataset (quiet_env []) ScannetPPDataset None (PStr ''data'') ''room0'' small_kwargs"
proof -
  have h: "py_getitem (PDict [(''dataset_name'', PStr ''SCANNETPP'')]) ''dataset_name''
             = Inr (PStr ''SCANNETPP'')"
    by (simp add: dict_get_def)
  have l: "str_lower ''SCANNETPP'' = ''scannetpp''" by code_simp
  have v: "spec_variant ''SCANNETPP'' = Some ScannetPPDataset"
    by (simp add: spec_variant_def supported_datasets_def lower_names l)
  from get_dataset_variant [OF h, of "quiet_env []" "PStr ''data''" "''room0''" small_kwargs] h v
  show ?thesis by simp
qed

text \<open>
  The name \<^verbatim>\<open>azure\<close> is none of the ten supported names, also up to letter case,
  and \<^verbatim>\<open>get_dataset\<close> does not fail on it: it constructs the AzureKinect class.
\<close>

theorem get_dataset_azure_counterexample:
  "str_lower ''azure'' \<notin> set (map (str_lower \<circ> fst) supported_datasets)
   \<and> get_dataset (quiet_env []) (PDict [(''dataset_name'', PStr ''azure'')]) (PStr ''data'') ''room0''
         small_kwargs
       = ([Construct \<lparr>ds_class = AzureKinectDataset,
                       ds_config_dict = Some (PDict [(''dataset_name'', PStr ''azure'')]),
                       ds_basedir = PStr ''data'', ds_sequence = ''room0'',
                       ds_kwargs = small_kwargs\<rparr>],
          Inr \<lparr>ds_class = AzureKinectDataset,
               ds_config_dict = Some (PDict [(''dataset_name'', PStr ''azure'')]),
               ds_basedir = PStr ''data'', ds_sequence = ''room0'',
               ds_kwargs = small_kwargs\<rparr>)"
proof -
  have l: "str_lower ''azure'' = ''azure''" by code_simp
  have n: "name_in (PDict [(''dataset_name'', PStr ''azure'')]) names = Inr (''azure'' \<in> set names)"
    for names
    by (simp add: name_in_def and_then_def dict_get_def l)
  have g: "get_dataset (quiet_env []) (PDict [(''dataset_name'', PStr ''azure'')]) (PStr ''data'')
             ''room0'' small_kwargs
           = construct_dataset (quiet_env []) AzureKinectDataset
               (Some (PDict [(''dataset_name'', PStr ''azure'')])) (PStr ''data'') ''room0'' small_kwargs"
    by (simp add: get_dataset_def n bnd_lift_Inr)
  have s: "str_lower ''azure'' \<notin> set (map (str_lower \<circ> fst) supported_datasets)"
    by (simp add: supported_datasets_def lower_names l)
  show ?thesis
    unfolding g using s
    by (simp add: construct_dataset_def quiet_env_def bnd_def call_def ret_def raises_def Let_def)
qed

subsection \<open>Runs and the calls of each part of the main block\<close>

lemma run_simps [simp]:
  "fst (ret x) = []" "snd (ret x) = Inr x"
  "fst (lift r) = []" "snd (lift r) = r"
  "fst (call ev r) = [ev]" "snd (call ev r) = r"
  by (simp_all add: ret_def lift_def call_def)

lemma fst_bnd: "fst (bnd m f) = fst m @ (case snd m of Inl e \<Rightarrow> [] | Inr a \<Rightarrow> fst (f a))"
  by (simp add: bnd_def split: sum.splits)

lemma snd_bnd: "snd (bnd m f) = (case snd m of Inl e \<Rightarrow> Inl e | Inr a \<Rightarrow> snd (f a))"
  by (simp add: bnd_def split: sum.splits)

lemma snd_bnd_Inr: "snd (bnd m f) = Inr b \<longleftrightarrow> (\<exists>a. snd m = Inr a \<and> snd (f a) = Inr b)"
  by (simp add: bnd_def split: sum.splits)

lemma and_then_Inr_iff: "and_then r f = Inr b \<longleftrightarrow> (\<exists>a. r = Inr a \<and> f a = Inr b)"
  by (simp add: and_then_def split: sum.splits)

lemma emits_ret: "emits S (ret x)"
  and emits_lift: "emits S (lift r)"
  and emits_call: "ev \<in> S \<Longrightarrow> emits S (call ev r)"
  by (simp_all add: emits_def)

lemma emits_bnd: "emits S m \<Longrightarrow> (\<And>a. emits S (f a)) \<Longrightarrow> emits S (bnd m f)"
  by (auto simp: emits_def fst_bnd split: sum.splits)

lemma emits_if: "(b \<Longrightarrow> emits S x) \<Longrightarrow> (\<not> b \<Longrightarrow> emits S y) \<Longrightarrow> emits S (if b then x else y)"
  by simp

lemma emits_prod: "(\<And>a b. emits S (f a b)) \<Longrightarrow> emits S (case p of (a, b) \<Rightarrow> f a b)"
  by (cases p) simp

lemma emits_option: "emits S x \<Longrightarrow> (\<And>a. emits S (f a)) \<Longrightarrow> emits S (case z of None \<Rightarrow> x | Some a \<Rightarrow> f a)"
  by (cases z) simp_all

lemma emits_filter: "emits S m \<Longrightarrow> (\<And>ev. ev \<in> S \<Longrightarrow> \<not> P ev) \<Longrightarrow> filter P (fst m) = []"
  by (auto simp: emits_def filter_empty_conv)

lemma emits_mono: "emits S m \<Longrightarrow> S \<subseteq> T \<Longrightarrow> emits T m"
  by (auto simp: emits_def)

lemmas emits_intros = emits_ret emits_lift emits_call emits_bnd emits_if emits_prod emits_option

lemma emits_setup_device: "emits {ev. \<exists>v. ev = SeedEverything v \<or> ev = TorchDevice v \<or> (\<exists>i. ev = CudaSetDevice i)} (setup_device env config)"
  unfolding setup_device_def by (intro emits_intros) auto

lemma emits_results_dir_step: "emits {ev. is_fs ev} (results_dir_step env experiment config)"
  unfolding results_dir_step_def by (intro emits_intros) auto

lemma emits_construct_dataset: "emits {ev. \<exists>ds. ev = Construct ds \<and> ds_kwargs ds = kw \<and> ds_basedir ds = b \<and> ds_sequence ds = s} (construct_dataset env cls cd b s kw)"
  unfolding construct_dataset_def Let_def by (intro emits_intros) auto

lemma emits_get_dataset: "emits {ev. \<exists>ds. ev = Construct ds \<and> ds_kwargs ds = kw \<and> ds_basedir ds = b \<and> ds_sequence ds = s} (get_dataset env cfg b s kw)"
  unfolding get_dataset_def unknown_dataset_def
  by (intro emits_intros emits_construct_dataset) (auto simp: emits_def split: pyval.splits)


lemma in_bnd:
  "x \<in> set (fst (bnd m f)) \<longleftrightarrow> x \<in> set (fst m) \<or> (\<exists>a. snd m = Inr a \<and> x \<in> set (fst (f a)))"
  by (auto simp: fst_bnd split: sum.splits)

lemma as_dict_Inr: "as_dict v = Inr d \<longleftrightarrow> v = PDict d"
  by (cases v) auto

lemma emits_in: "emits S m \<Longrightarrow> x \<in> set (fst m) \<Longrightarrow> x \<in> S"
  by (auto simp: emits_def)

lemma emits_gradslam_cfg: "emits {ev. \<exists>p. ev = LoadDatasetConfig p} (gradslam_cfg env dc)"
  unfolding gradslam_cfg_def by (intro emits_intros) auto

lemma emits_frame_count: "emits {ev. ev = Len ds} (frame_count env ds nf)"
  unfolding frame_count_def by (intro emits_intros) auto

lemma unknown_dataset_raises: "\<exists>e. unknown_dataset cfg = ([], Inl e)"
  by (cases "py_getitem cfg ''dataset_name''")
     (auto simp: unknown_dataset_def bnd_def lift_def split: pyval.splits)

lemma name_in_lower:
  "name_in cfg names = and_then (and_then (py_getitem cfg ''dataset_name'') py_lower)
                         (\<lambda>n. Inr (n \<in> set names))"
  by (simp add: name_in_def and_then_assoc)

lemma get_dataset_cases_if:
  assumes "(\<exists>e. r = ([], Inl e)) \<or> (\<exists>cls cd. r = construct_dataset env cls cd b s kw)"
  shows "(\<exists>e. (if c then construct_dataset env cls0 cd0 b s kw else r) = ([], Inl e)) \<or>
         (\<exists>cls cd. (if c then construct_dataset env cls0 cd0 b s kw else r)
                      = construct_dataset env cls cd b s kw)"
  using assms by (cases c) auto

lemma get_dataset_cases:
  "(\<exists>e. get_dataset env cfg b s kw = ([], Inl e)) \<or>
   (\<exists>cls cd. get_dataset env cfg b s kw = construct_dataset env cls cd b s kw)"
proof (cases "and_then (py_getitem cfg ''dataset_name'') py_lower")
  case (Inl e)
  then have "name_in cfg names = Inl e" for names
    by (simp add: name_in_lower and_then_Inl)
  then have "get_dataset env cfg b s kw = ([], Inl e)"
    unfolding get_dataset_def by (simp only: bnd_lift_Inl)
  then show ?thesis by blast
next
  case (Inr n)
  then have n: "name_in cfg names = Inr (n \<in> set names)" for names
    by (simp add: name_in_lower and_then_Inr)
  show ?thesis
    unfolding get_dataset_def n bnd_lift_Inr
    by (intro get_dataset_cases_if) (use unknown_dataset_raises in blast)
qed

lemma construct_dataset_run:
  "construct_dataset env cls cd b s kw =
     ([Construct \<lparr>ds_class = cls, ds_config_dict = cd, ds_basedir = b, ds_sequence = s, ds_kwargs = kw\<rparr>],
      case construct_exc env \<lparr>ds_class = cls, ds_config_dict = cd, ds_basedir = b,
                               ds_sequence = s, ds_kwargs = kw\<rparr> of
        None \<Rightarrow> Inr \<lparr>ds_class = cls, ds_config_dict = cd, ds_basedir = b, ds_sequence = s, ds_kwargs = kw\<rparr>
      | Some e \<Rightarrow> Inl e)"
  by (simp add: construct_dataset_def Let_def bnd_def call_def ret_def raises_def split: option.splits)


lemma get_dataset_events:
  "fst (get_dataset env cfg b s kw) = [] \<or>
   (\<exists>ds. fst (get_dataset env cfg b s kw) = [Construct ds] \<and> ds_kwargs ds = kw
         \<and> ds_basedir ds = b \<and> ds_sequence ds = s
         \<and> snd (get_dataset env cfg b s kw) = (case construct_exc env ds of None \<Rightarrow> Inr ds | Some e \<Rightarrow> Inl e))"
  using get_dataset_cases [of env cfg b s kw]
  by (auto simp: construct_dataset_run)



lemma os_path_join_Inr:
  "os_path_join a b = Inr p \<longleftrightarrow> (\<exists>x y. a = PStr x \<and> b = PStr y \<and> p = path_join x y)"
  by (cases a; cases b) auto



lemma results_dir_step_events:
  "fst (results_dir_step env experiment config) = [] \<or>
   (\<exists>w r lc. map_of config ''workdir'' = Some (PStr w) \<and> map_of config ''run_name'' = Some (PStr r)
       \<and> map_of config ''load_checkpoint'' = Some lc \<and> \<not> truthy lc
       \<and> (fst (results_dir_step env experiment config) = [Makedirs (path_join w r) True] \<or>
          fst (results_dir_step env experiment config)
            = [Makedirs (path_join w r) True,
               ShutilCopy experiment (path_join (path_join w r) ''config.py'')]))"
proof (cases "dict_get config ''workdir''")
  case Inl
  then show ?thesis by (simp add: results_dir_step_def fst_bnd)
next
  case (Inr wv)
  note w = this
  show ?thesis
  proof (cases "dict_get config ''run_name''")
    case Inl
    with w show ?thesis by (simp add: results_dir_step_def fst_bnd)
  next
    case (Inr rv)
    note r = this
    show ?thesis
    proof (cases "os_path_join wv rv")
      case Inl
      with w r show ?thesis by (simp add: results_dir_step_def fst_bnd)
    next
      case (Inr rd)
      note j = this
      show ?thesis
      proof (cases "dict_get config ''load_checkpoint''")
        case Inl
        with w r j show ?thesis by (simp add: results_dir_step_def fst_bnd)
      next
        case (Inr lc)
        note l = this
        from j obtain x y where xy: "wv = PStr x" "rv = PStr y" "rd = path_join x y"
          by (auto simp: os_path_join_Inr)
        have run: "results_dir_step env experiment config =
          (if \<not> truthy lc then
             bnd (call (Makedirs rd True) (raises (makedirs_exc env rd))) (\<lambda>_.
             bnd (call (ShutilCopy experiment (path_join rd ''config.py''))
                       (raises (copy_exc env experiment (path_join rd ''config.py'')))) (\<lambda>_.
             ret rd))
           else ret rd)"
          by (simp add: results_dir_step_def w r j l bnd_lift_Inr)
        have "fst (results_dir_step env experiment config) = [] \<or> (\<not> truthy lc \<and>
               (fst (results_dir_step env experiment config) = [Makedirs rd True] \<or>
                fst (results_dir_step env experiment config)
                  = [Makedirs rd True, ShutilCopy experiment (path_join rd ''config.py'')]))"
          unfolding run by (auto simp: fst_bnd split: sum.splits)
        with w r l xy show ?thesis by (auto simp: dict_get_Some)
      qed
    qed
  qed
qed




lemma emits_load_dataset:
  "emits {ev. ev = Print ''Loading Dataset ...'' \<or> (\<exists>p. ev = LoadDatasetConfig p)
              \<or> (\<exists>ds. ev = Construct ds) \<or> (\<exists>ds. ev = Len ds)}
         (load_dataset env config device excl)"
  unfolding load_dataset_def Let_def
  by (intro emits_intros emits_mono [OF emits_gradslam_cfg] emits_mono [OF emits_get_dataset]
        emits_mono [OF emits_frame_count]) auto

lemma emits_load_scene_data: "emits {ev. ev = NpLoad p True} (load_scene_data env p excl device)"
  unfolding load_scene_data_def Let_def by (intro emits_intros) auto

lemma emits_load_inputs:
  "emits {ev. \<not> is_fs ev \<and> \<not> is_eval ev \<and> \<not> is_tracking ev} (load_inputs env config device rd0)"
  unfolding load_inputs_def
  by (intro emits_intros emits_mono [OF emits_load_dataset] emits_mono [OF emits_load_scene_data]) auto

lemma load_dataset_construct:
  assumes "Construct ds \<in> set (fst (load_dataset env config device excl))"
  shows "\<exists>dc ls nsc excl'. map_of config ''data'' = Some (PDict dc)
           \<and> semantics_config (apply_defaults dc) excl = Inr (ls, nsc, excl')
           \<and> dataset_kwargs (apply_defaults dc) device ls nsc = Inr (ds_kwargs ds)"
proof -
  have g: "Construct ds \<notin> set (fst (gradslam_cfg env dc))" for dc
    using emits_in [OF emits_gradslam_cfg [where env = env and dc = dc], of "Construct ds"] by auto
  have f: "Construct ds \<notin> set (fst (frame_count env d nf))" for d nf
    using emits_in [OF emits_frame_count [where env = env and ds = d and nf = nf], of "Construct ds"] by auto
  have k: "Construct ds \<in> set (fst (get_dataset env cfg b s kw)) \<Longrightarrow> ds_kwargs ds = kw" for cfg b s kw
    using emits_in [OF emits_get_dataset [where env = env and cfg = cfg and b = b and s = s and kw = kw],
                   of "Construct ds"] by auto
  from assms show ?thesis
    unfolding load_dataset_def
    by (auto simp: in_bnd g f Let_def and_then_Inr_iff as_dict_Inr dict_get_Some
             split: prod.splits dest!: k)
qed

lemma load_inputs_returns:
  assumes "snd (load_inputs env config device rd0) = Inr l"
  shows "\<exists>ld rd. resolve_scene_path config rd0 = Inr (rd, l_scene_path l)
           \<and> snd (load_dataset env config device {}) = Inr ld
           \<and> snd (load_scene_data env (l_scene_path l) (ld_params_opt_exclude ld) ''cuda'')
               = Inr (l_params l)
           \<and> split_names (ld_config ld) (ld_dataset_config ld) rd = Inr (l_eval_dir l, l_wandb_name l)
           \<and> l_config l = ld_config ld \<and> l_device l = device \<and> l_results_dir l = rd
           \<and> l_dataset_config l = ld_dataset_config ld \<and> l_load_semantics l = ld_load_semantics ld
           \<and> l_params_opt_exclude l = ld_params_opt_exclude ld \<and> l_dataset l = ld_dataset ld
           \<and> l_num_frames l = ld_num_frames ld"
  using assms unfolding load_inputs_def
  by (auto simp: snd_bnd_Inr split: prod.splits)


lemma main_trace:
  "fst (main env experiment config) =
     fst (prepare env experiment config) @
     (case snd (prepare env experiment config) of Inl e \<Rightarrow> [] | Inr l \<Rightarrow> fst (tracked_eval env l))"
  by (simp add: main_def fst_bnd)

lemma main_result:
  "snd (main env experiment config) =
     (case snd (prepare env experiment config) of Inl e \<Rightarrow> Inl e | Inr l \<Rightarrow> snd (tracked_eval env l))"
  by (simp add: main_def snd_bnd)

lemma prepare_trace:
  "fst (prepare env experiment config) =
     fst (setup_device env config) @
     (case snd (setup_device env config) of
        Inl e \<Rightarrow> []
      | Inr device \<Rightarrow>
          fst (results_dir_step env experiment config) @
          (case snd (results_dir_step env experiment config) of
             Inl e \<Rightarrow> []
           | Inr rd \<Rightarrow> fst (load_inputs env config device rd)))"
  by (simp add: prepare_def fst_bnd split: sum.splits)

lemma is_fs_other: "is_fs ev \<Longrightarrow> \<not> is_eval ev \<and> \<not> is_tracking ev"
  by (cases ev) auto

lemma emits_prepare:
  "emits {ev. \<not> is_eval ev \<and> \<not> is_tracking ev} (prepare env experiment config)"
  unfolding prepare_def
  by (intro emits_intros emits_mono [OF emits_setup_device] emits_mono [OF emits_results_dir_step]
        emits_mono [OF emits_load_inputs]) (auto dest: is_fs_other)

subsection \<open>Tracking and evaluation\<close>

lemma bnd_nil_Inr: "bnd ([], Inr a) f = f a"
  by (simp add: bnd_def)

lemma bnd_nil_Inl: "bnd ([], Inl e) f = ([], Inl e)"
  by (simp add: bnd_def)






lemma bnd_pair_Inr: "bnd (es, Inr a) f = (es @ fst (f a), snd (f a))"
  by (simp add: bnd_def)




subsection \<open>The run on the example configuration\<close>

lemma bnd_call_Inr: "bnd (call ev (Inr a)) f = (ev # fst (f a), snd (f a))"
  by (simp add: bnd_def call_def)

lemma bnd_call_Inl: "bnd (call ev (Inl e)) f = ([ev], Inl e)"
  by (simp add: bnd_def call_def)

lemma example_config_get:
  "dict_get (example_config sem) ''seed'' = Inr (PInt 0)"
  "dict_get (example_config sem) ''primary_device'' = Inr (PStr ''cuda:0'')"
  "dict_get (example_config sem) ''workdir'' = Inr (PStr ''./experiments/Replica'')"
  "dict_get (example_config sem) ''run_name'' = Inr (PStr ''room0_0'')"
  "dict_get (example_config sem) ''load_checkpoint'' = Inr (PBool False)"
  "dict_get (example_config sem) ''data'' = Inr (PDict (example_data sem))"
  "dict_has (example_config sem) ''scene_path'' = False"
  by (simp_all add: example_config_def dict_get_def dict_has_def)

lemma example_env_simps:
  "seed_everything_exc (example_env exc) = (\<lambda>_. None)"
  "torch_device_exc (example_env exc) = (\<lambda>_. None)"
  "parse_int (example_env exc) = (\<lambda>_. Inr 0)"
  "set_device_exc (example_env exc) = (\<lambda>_. None)"
  "makedirs_exc (example_env exc) = (\<lambda>_. None)"
  "copy_exc (example_env exc) = (\<lambda>_ _. None)"
  "construct_exc (example_env exc) = (\<lambda>_. None)"
  "len_res (example_env exc) = (\<lambda>_. Inr 5)"
  "np_load_res (example_env exc) = (\<lambda>_. Inr small_archive)"
  "to_exc (example_env exc) = (\<lambda>_ _. None)"
  "cast_f32 (example_env exc) = (\<lambda>_ x. x)"
  "wandb_init_exc (example_env exc) = (\<lambda>_. None)"
  "eval_exc (example_env exc) = (\<lambda>_. exc)"
  "eval_nvs_exc (example_env exc) = (\<lambda>_. None)"
  "finish_exc (example_env exc) = (\<lambda>_. None)"
  by (simp_all add: example_env_def quiet_env_def)

lemma example_setup_device:
  "setup_device (example_env exc) (example_config sem)
     = ([SeedEverything (PInt 0), TorchDevice (PStr ''cuda:0''), CudaSetDevice 0],
        Inr (PStr ''cuda:0''))"
  by (simp add: setup_device_def example_config_get example_env_simps bnd_lift_Inr bnd_call_Inr
        raises_def and_then_def list_get_def ret_def)

lemma example_results_dir_step:
  "results_dir_step (example_env exc) ''configs/replica.py'' (example_config sem)
     = ([Makedirs ''./experiments/Replica/room0_0'' True,
         ShutilCopy ''configs/replica.py'' ''./experiments/Replica/room0_0/config.py''],
        Inr ''./experiments/Replica/room0_0'')"
  by (simp add: results_dir_step_def example_config_get example_env_simps bnd_lift_Inr
        bnd_call_Inr raises_def ret_def path_join_def)

lemma example_resolve_scene_path:
  "resolve_scene_path (example_config sem) ''./experiments/Replica/room0_0''
     = Inr (''./experiments/Replica/room0_0'', PStr ''./experiments/Replica/room0_0/params.npz'')"
  by (simp add: resolve_scene_path_def example_config_get and_then_def path_join_def)

lemma example_apply_defaults: "apply_defaults (example_data sem) = (example_data_defaults sem)"
  by (simp add: apply_defaults_def example_data_def example_data_defaults_def dict_has_def)

lemma example_data_get:
  "dict_has (example_data sem) ''gradslam_data_cfg'' = False"
  "dict_get (example_data sem) ''dataset_name'' = Inr (PStr ''Replica'')"
  by (simp_all add: example_data_def dict_get_def dict_has_def)

lemma example_defaults_get:
  "dict_has (example_data_defaults sem) ''load_semantics'' = True"
  "dict_get (example_data_defaults sem) ''load_semantics'' = Inr sem"
  "dict_get (example_data_defaults sem) ''num_semantic_classes'' = Inr (PInt 101)"
  "dict_get (example_data_defaults sem) ''basedir'' = Inr (PStr ''./data/Replica'')"
  "dict_get (example_data_defaults sem) ''sequence'' = Inr (PStr ''room0'')"
  "dict_get (example_data_defaults sem) ''start'' = Inr (PInt 0)"
  "dict_get (example_data_defaults sem) ''end'' = Inr (PInt (- 1))"
  "dict_get (example_data_defaults sem) ''stride'' = Inr (PInt 1)"
  "dict_get (example_data_defaults sem) ''desired_image_height'' = Inr (PInt 680)"
  "dict_get (example_data_defaults sem) ''desired_image_width'' = Inr (PInt 1200)"
  "dict_get (example_data_defaults sem) ''ignore_bad'' = Inr (PBool False)"
  "dict_get (example_data_defaults sem) ''use_train_split'' = Inr (PBool True)"
  "dict_get (example_data_defaults sem) ''num_frames'' = Inr (PInt (- 1))"
  by (simp_all add: example_data_defaults_def example_data_def dict_get_def dict_has_def)

lemma example_kwargs:
  "dataset_kwargs (example_data_defaults sem) (PStr ''cuda:0'') sem (PInt 101)
     = Inr (ds_kwargs (example_dataset sem))"
  by (simp add: dataset_kwargs_def example_defaults_get and_then_def example_dataset_def
        small_kwargs_def)

lemma example_get_dataset:
  "get_dataset (example_env exc) (PDict [(''dataset_name'', PStr ''Replica'')])
       (PStr ''./data/Replica'') ''room0'' (ds_kwargs (example_dataset sem))
     = ([Construct (example_dataset sem)], Inr (example_dataset sem))"
proof -
  have n: "name_in (PDict [(''dataset_name'', PStr ''Replica'')]) names = Inr (''replica'' \<in> set names)"
    for names
    by (simp add: name_in_def and_then_def dict_get_def lower_names)
  have "get_dataset (example_env exc) (PDict [(''dataset_name'', PStr ''Replica'')])
          (PStr ''./data/Replica'') ''room0'' (ds_kwargs (example_dataset sem))
        = construct_dataset (example_env exc) ReplicaDataset
            (Some (PDict [(''dataset_name'', PStr ''Replica'')]))
            (PStr ''./data/Replica'') ''room0'' (ds_kwargs (example_dataset sem))"
    by (simp add: get_dataset_def n bnd_lift_Inr)
  then show ?thesis
    by (simp add: construct_dataset_run example_env_simps example_dataset_def)
qed

lemma example_load_dataset:
  "load_dataset (example_env exc) (example_config sem) (PStr ''cuda:0'') {}
     = ([Print ''Loading Dataset ...'', Construct (example_dataset sem), Len (example_dataset sem)],
        Inr \<lparr>ld_config = dict_set (example_config sem) ''data'' (PDict (example_data_defaults sem)),
             ld_dataset_config = (example_data_defaults sem), ld_dataset = (example_dataset sem),
             ld_load_semantics = sem, ld_params_opt_exclude = {''semantic_ids''},
             ld_num_frames = PInt 5\<rparr>)"
proof -
  have g: "gradslam_cfg (example_env exc) (example_data sem)
             = ([], Inr (PDict [(''dataset_name'', PStr ''Replica'')]))"
    by (simp add: gradslam_cfg_def example_data_get bnd_lift_Inr ret_def)
  have s: "semantics_config (example_data_defaults sem) {} = Inr (sem, PInt 101, {''semantic_ids''})"
    by (simp add: semantics_config_def example_defaults_get and_then_def)
  have f: "frame_count (example_env exc) (example_dataset sem) (PInt (- 1))
             = ([Len (example_dataset sem)], Inr (PInt 5))"
    by (simp add: frame_count_def example_env_simps bnd_call_Inr ret_def)
  show ?thesis
    by (simp add: load_dataset_def example_config_get and_then_def bnd_call_Inr bnd_lift_Inr
          bnd_nil_Inr g example_apply_defaults s example_defaults_get example_kwargs
          example_get_dataset bnd_pair_Inr f ret_def basename_def Let_def)
qed

lemma example_load_scene_data:
  "load_scene_data (example_env exc) (PStr ''./experiments/Replica/room0_0/params.npz'')
       {''semantic_ids''} ''cuda''
     = ([NpLoad (PStr ''./experiments/Replica/room0_0/params.npz'') True], Inr example_params)"
  by (simp add: load_scene_data_def example_env_simps small_archive_def bnd_call_Inr lift_def
        py_dict_def dict_get_def convert_param_def and_then_def tensor_to_def tensor_float_def
        set_requires_grad_def example_params_def)


lemma example_tracking_get:
  "dict_get (dict_set (example_config sem) ''data'' v) ''use_wandb'' = Inr (PBool True)"
  "dict_get (dict_set (example_config sem) ''data'' v) ''eval_every'' = Inr (PInt 5)"
  "and_then (dict_get (dict_set (example_config sem) ''data'' v) ''wandb'') (\<lambda>w. py_getitem w ''name'')
     = Inr (PStr ''room0_0'')"
  "and_then (dict_get (dict_set (example_config sem) ''data'' v) ''wandb'') (\<lambda>w. py_getitem w ''project'')
     = Inr (PStr ''SGS-SLAM'')"
  "and_then (dict_get (dict_set (example_config sem) ''data'' v) ''wandb'') (\<lambda>w. py_getitem w ''entity'')
     = Inr (PStr ''lab'')"
  "and_then (dict_get (dict_set (example_config sem) ''data'' v) ''wandb'') (\<lambda>w. py_getitem w ''group'')
     = Inr (PStr ''Replica'')"
  "and_then (dict_get (dict_set (example_config sem) ''data'' v) ''wandb'')
       (\<lambda>w. py_getitem w ''eval_save_qual'') = Inr (PBool True)"
  "and_then (dict_get (dict_set (example_config sem) ''data'' v) ''mapping'')
       (\<lambda>m. py_getitem m ''sil_thres'') = Inr (PFloat (1 / 2))"
  "and_then (dict_get (dict_set (example_config sem) ''data'' v) ''mapping'')
       (\<lambda>m. py_getitem m ''num_iters'') = Inr (PInt 60)"
  "and_then (dict_get (dict_set (example_config sem) ''data'' v) ''mapping'')
       (\<lambda>m. py_getitem m ''add_new_gaussians'') = Inr (PBool True)"
  by (simp_all add: dict_get_def map_of_dict_set example_config_def and_then_def)

lemma example_split_names:
  "split_names (dict_set (example_config sem) ''data'' (PDict (example_data_defaults sem))) (example_data_defaults sem)
       ''./experiments/Replica/room0_0''
     = Inr (''./experiments/Replica/room0_0/eval_train'', ''room0_0_Train_Split'')"
  by (simp add: split_names_def example_defaults_get example_tracking_get and_then_Inr
        path_join_def)

lemma example_prepare:
  "prepare (example_env exc) ''configs/replica.py'' (example_config sem)
     = ((example_prepare_calls sem), Inr (example_locals sem))"
proof -
  have li: "load_inputs (example_env exc) (example_config sem) (PStr ''cuda:0'')
              ''./experiments/Replica/room0_0''
            = ([Print ''Loading Dataset ...'', Construct (example_dataset sem), Len (example_dataset sem),
                NpLoad (PStr ''./experiments/Replica/room0_0/params.npz'') True],
               Inr (example_locals sem))"
    by (simp add: load_inputs_def example_resolve_scene_path bnd_lift_Inr example_load_dataset
          bnd_pair_Inr example_load_scene_data example_split_names ret_def example_locals_def)
  show ?thesis
    by (simp add: prepare_def example_setup_device example_results_dir_step li bnd_pair_Inr
          example_prepare_calls_def)
qed

lemma example_tracked_eval:
  "tracked_eval (example_env exc) (example_locals sem)
     = (case exc of
          None \<Rightarrow> ([WandbInit (example_run sem), Eval (example_args sem), WandbFinish (example_run sem)], Inr ())
        | Some e \<Rightarrow> ([WandbInit (example_run sem), Eval (example_args sem)], Inl e))"
proof -
  let ?cfg = "dict_set (example_config sem) ''data'' (PDict (example_data_defaults sem))"
  have wo: "wandb_open (example_env exc) ?cfg ''room0_0_Train_Split''
              = ([WandbInit (example_run sem)], Inr (Some (example_run sem)))"
    by (simp add: wandb_open_def example_tracking_get bnd_lift_Inr Let_def example_env_simps
          bnd_call_Inr raises_def ret_def example_run_def)
  have ea: "eval_arguments ?cfg (example_dataset sem) example_params (PInt 5)
              ''./experiments/Replica/room0_0/eval_train'' sem (Some (example_run sem)) True
            = Inr (example_args sem)"
    by (simp add: eval_arguments_def example_tracking_get and_then_Inr example_args_def)
  have ev: "evaluate (example_env exc) ?cfg (example_data_defaults sem) (example_dataset sem) example_params
              (PInt 5) ''./experiments/Replica/room0_0/eval_train'' sem (Some (example_run sem))
            = ([Eval (example_args sem)], raises exc)"
    by (simp add: evaluate_def example_tracking_get bnd_lift_Inr example_defaults_get ea call_def
          example_env_simps)
  have wc: "wandb_close (example_env exc) ?cfg (Some (example_run sem))
              = ([WandbFinish (example_run sem)], Inr ())"
    by (simp add: wandb_close_def example_tracking_get bnd_lift_Inr call_def example_env_simps
          raises_def)
  have te: "tracked_eval (example_env exc) (example_locals sem)
              = bnd ([WandbInit (example_run sem)], Inr (Some (example_run sem))) (\<lambda>wandb_run.
                bnd ([Eval (example_args sem)], raises exc) (\<lambda>_. ([WandbFinish (example_run sem)], Inr ())))"
    by (simp add: tracked_eval_def example_locals_def wo ev wc bnd_pair_Inr)
  show ?thesis
    unfolding te by (cases exc) (simp_all add: bnd_def raises_def)
qed

lemma example_main:
  "main (example_env exc) ''configs/replica.py'' (example_config sem)
     = (case exc of
          None \<Rightarrow> ((example_prepare_calls sem)
                    @ [WandbInit (example_run sem), Eval (example_args sem), WandbFinish (example_run sem)], Inr ())
        | Some e \<Rightarrow> ((example_prepare_calls sem) @ [WandbInit (example_run sem), Eval (example_args sem)], Inl e))"
  by (cases exc) (simp_all add: main_def example_prepare example_tracked_eval bnd_pair_Inr)

subsection \<open>The dispatch of the evaluation\<close>



lemma prepare_no_tracking: "filter is_tracking (fst (prepare env experiment config)) = []"
  by (rule emits_filter [OF emits_prepare]) simp


lemma eval_event_simps [simp]:
  "is_eval (eval_event uts a)" "\<not> is_tracking (eval_event uts a)" "\<not> is_fs (eval_event uts a)"
  "raised_by env (eval_event uts a) = eval_exception env uts a"
  by (simp_all add: eval_event_def eval_exception_def)





subsection \<open>The tracking run\<close>










subsection \<open>The calls of the main block, by kind\<close>

lemma emits_tracked_eval: "emits {ev. is_eval ev \<or> is_tracking ev} (tracked_eval env l)"
  unfolding tracked_eval_def wandb_open_def evaluate_def wandb_close_def Let_def
  by (intro emits_intros) auto

lemma main_filter:
  assumes "\<And>ev. is_eval ev \<or> is_tracking ev \<Longrightarrow> \<not> P ev"
  shows "filter P (fst (main env experiment config)) = filter P (fst (prepare env experiment config))"
proof -
  have "filter P (fst (tracked_eval env l)) = []" for l
    by (rule emits_filter [OF emits_tracked_eval]) (use assms in auto)
  then show ?thesis
    by (simp add: main_trace split: sum.splits)
qed

lemma prepare_filter:
  assumes "\<And>v. \<not> P (SeedEverything v)" "\<And>v. \<not> P (TorchDevice v)" "\<And>i. \<not> P (CudaSetDevice i)"
  shows "filter P (fst (prepare env experiment config)) =
           (case snd (setup_device env config) of
              Inl e \<Rightarrow> []
            | Inr device \<Rightarrow>
                filter P (fst (results_dir_step env experiment config)) @
                (case snd (results_dir_step env experiment config) of
                   Inl e \<Rightarrow> []
                 | Inr rd \<Rightarrow> filter P (fst (load_inputs env config device rd))))"
proof -
  have "filter P (fst (setup_device env config)) = []"
    by (rule emits_filter [OF emits_setup_device]) (use assms in auto)
  then show ?thesis
    by (simp add: prepare_trace split: sum.splits)
qed


subsection \<open>The run on the second configuration\<close>

lemma nvs_config_get:
  "dict_get nvs_config ''seed'' = Inr (PInt 0)"
  "dict_get nvs_config ''primary_device'' = Inr (PStr ''cuda:0'')"
  "dict_get nvs_config ''workdir'' = Inr (PStr ''./experiments/Replica'')"
  "dict_get nvs_config ''run_name'' = Inr (PStr ''room0_0'')"
  "dict_get nvs_config ''load_checkpoint'' = Inr (PBool True)"
  "dict_get nvs_config ''data'' = Inr (PDict nvs_data)"
  "dict_has nvs_config ''scene_path'' = True"
  "dict_get nvs_config ''scene_path'' = Inr (PStr ''./checkpoints/room0/params.npz'')"
  "dict_get nvs_config ''use_wandb'' = Inr (PBool False)"
  "dict_get nvs_config ''eval_every'' = Inr (PInt 5)"
  "and_then (dict_get nvs_config ''wandb'') (\<lambda>w. py_getitem w ''name'') = Inr (PStr ''room0_0'')"
  "and_then (dict_get nvs_config ''mapping'') (\<lambda>m. py_getitem m ''sil_thres'') = Inr (PFloat (1 / 2))"
  "and_then (dict_get nvs_config ''mapping'') (\<lambda>m. py_getitem m ''num_iters'') = Inr (PInt 60)"
  "and_then (dict_get nvs_config ''mapping'') (\<lambda>m. py_getitem m ''add_new_gaussians'') = Inr (PBool True)"
  "dict_set nvs_config ''data'' (PDict nvs_data) = nvs_config"
  by (simp_all add: nvs_config_def dict_get_def dict_has_def and_then_def)

lemma nvs_data_get:
  "dict_has nvs_data ''gradslam_data_cfg'' = False"
  "dict_get nvs_data ''dataset_name'' = Inr (PStr ''Replica'')"
  "dict_has nvs_data ''load_semantics'' = False"
  "dict_get nvs_data ''basedir'' = Inr (PStr ''./data/Replica'')"
  "dict_get nvs_data ''sequence'' = Inr (PStr ''room0'')"
  "dict_get nvs_data ''start'' = Inr (PInt 0)"
  "dict_get nvs_data ''end'' = Inr (PInt (- 1))"
  "dict_get nvs_data ''stride'' = Inr (PInt 1)"
  "dict_get nvs_data ''desired_image_height'' = Inr (PInt 680)"
  "dict_get nvs_data ''desired_image_width'' = Inr (PInt 1200)"
  "dict_get nvs_data ''ignore_bad'' = Inr (PBool True)"
  "dict_get nvs_data ''use_train_split'' = Inr (PBool False)"
  "dict_get nvs_data ''num_frames'' = Inr (PInt 100)"
  "apply_defaults nvs_data = nvs_data"
  by (simp_all add: nvs_data_def dict_get_def dict_has_def apply_defaults_def)

lemma nvs_setup_device:
  "setup_device (example_env exc) nvs_config
     = ([SeedEverything (PInt 0), TorchDevice (PStr ''cuda:0''), CudaSetDevice 0],
        Inr (PStr ''cuda:0''))"
  by (simp add: setup_device_def nvs_config_get example_env_simps bnd_lift_Inr bnd_call_Inr
        raises_def and_then_def list_get_def ret_def)

lemma nvs_results_dir_step:
  "results_dir_step (example_env exc) ''configs/replica.py'' nvs_config
     = ([], Inr ''./experiments/Replica/room0_0'')"
  by (simp add: results_dir_step_def nvs_config_get bnd_lift_Inr ret_def path_join_def)

lemma nvs_resolve_scene_path:
  "resolve_scene_path nvs_config ''./experiments/Replica/room0_0''
     = Inr (''./experiments/Replica/room0_0'', PStr ''./checkpoints/room0/params.npz'')"
  by (simp add: resolve_scene_path_def nvs_config_get and_then_def)

lemma nvs_kwargs:
  "dataset_kwargs nvs_data (PStr ''cuda:0'') (PBool False) (PInt 0) = Inr (ds_kwargs nvs_dataset)"
  by (simp add: dataset_kwargs_def nvs_data_get and_then_def nvs_dataset_def small_kwargs_def)

lemma nvs_get_dataset:
  "get_dataset (example_env exc) (PDict [(''dataset_name'', PStr ''Replica'')])
       (PStr ''./data/Replica'') ''room0'' (ds_kwargs nvs_dataset)
     = ([Construct nvs_dataset], Inr nvs_dataset)"
proof -
  have n: "name_in (PDict [(''dataset_name'', PStr ''Replica'')]) names = Inr (''replica'' \<in> set names)"
    for names
    by (simp add: name_in_def and_then_def dict_get_def lower_names)
  have "get_dataset (example_env exc) (PDict [(''dataset_name'', PStr ''Replica'')])
          (PStr ''./data/Replica'') ''room0'' (ds_kwargs nvs_dataset)
        = construct_dataset (example_env exc) ReplicaDataset
            (Some (PDict [(''dataset_name'', PStr ''Replica'')]))
            (PStr ''./data/Replica'') ''room0'' (ds_kwargs nvs_dataset)"
    by (simp add: get_dataset_def n bnd_lift_Inr)
  then show ?thesis
    by (simp add: construct_dataset_run example_env_simps nvs_dataset_def)
qed

lemma nvs_load_dataset:
  "load_dataset (example_env exc) nvs_config (PStr ''cuda:0'') {}
     = ([Print ''Loading Dataset ...'', Construct nvs_dataset],
        Inr \<lparr>ld_config = nvs_config, ld_dataset_config = nvs_data, ld_dataset = nvs_dataset,
             ld_load_semantics = PBool False, ld_params_opt_exclude = {},
             ld_num_frames = PInt 100\<rparr>)"
proof -
  have g: "gradslam_cfg (example_env exc) nvs_data
             = ([], Inr (PDict [(''dataset_name'', PStr ''Replica'')]))"
    by (simp add: gradslam_cfg_def nvs_data_get bnd_lift_Inr ret_def)
  have s: "semantics_config nvs_data {} = Inr (PBool False, PInt 0, {})"
    by (simp add: semantics_config_def nvs_data_get)
  have f: "frame_count (example_env exc) nvs_dataset (PInt 100) = ([], Inr (PInt 100))"
    by (simp add: frame_count_def ret_def)
  show ?thesis
    by (simp add: load_dataset_def nvs_config_get and_then_def bnd_call_Inr bnd_lift_Inr
          bnd_nil_Inr g s nvs_data_get nvs_kwargs nvs_get_dataset bnd_pair_Inr f ret_def
          basename_def Let_def)
qed

lemma nvs_load_scene_data:
  "load_scene_data (example_env exc) (PStr ''./checkpoints/room0/params.npz'') {} ''cuda''
     = ([NpLoad (PStr ''./checkpoints/room0/params.npz'') True], Inr nvs_params)"
  by (simp add: load_scene_data_def example_env_simps small_archive_def bnd_call_Inr lift_def
        py_dict_def dict_get_def convert_param_def and_then_def tensor_to_def tensor_float_def
        set_requires_grad_def nvs_params_def)

lemma nvs_split_names:
  "split_names nvs_config nvs_data ''./experiments/Replica/room0_0''
     = Inr (''./experiments/Replica/room0_0/eval_nvs'', ''room0_0_NVS_Split'')"
  by (simp add: split_names_def nvs_data_get nvs_config_get and_then_Inr path_join_def)

lemma nvs_prepare:
  "prepare (example_env exc) ''configs/replica.py'' nvs_config
     = ([SeedEverything (PInt 0), TorchDevice (PStr ''cuda:0''), CudaSetDevice 0,
         Print ''Loading Dataset ...'', Construct nvs_dataset,
         NpLoad (PStr ''./checkpoints/room0/params.npz'') True], Inr nvs_locals)"
proof -
  have li: "load_inputs (example_env exc) nvs_config (PStr ''cuda:0'')
              ''./experiments/Replica/room0_0''
            = ([Print ''Loading Dataset ...'', Construct nvs_dataset,
                NpLoad (PStr ''./checkpoints/room0/params.npz'') True],
               Inr nvs_locals)"
    by (simp add: load_inputs_def nvs_resolve_scene_path bnd_lift_Inr nvs_load_dataset
          bnd_pair_Inr nvs_load_scene_data nvs_split_names ret_def nvs_locals_def)
  show ?thesis
    by (simp add: prepare_def nvs_setup_device nvs_results_dir_step li bnd_pair_Inr bnd_nil_Inr)
qed

lemma nvs_tracked_eval:
  "tracked_eval (example_env exc) nvs_locals = ([EvalNvs nvs_args], Inr ())"
proof -
  have wo: "wandb_open (example_env exc) nvs_config ''room0_0_NVS_Split'' = ([], Inr None)"
    by (simp add: wandb_open_def nvs_config_get bnd_lift_Inr ret_def)
  have ea: "eval_arguments nvs_config nvs_dataset nvs_params (PInt 100)
              ''./experiments/Replica/room0_0/eval_nvs'' (PBool False) None False
            = Inr nvs_args"
    by (simp add: eval_arguments_def nvs_config_get and_then_Inr nvs_args_def)
  have ev: "evaluate (example_env exc) nvs_config nvs_data nvs_dataset nvs_params
              (PInt 100) ''./experiments/Replica/room0_0/eval_nvs'' (PBool False) None
            = ([EvalNvs nvs_args], Inr ())"
    by (simp add: evaluate_def nvs_config_get bnd_lift_Inr nvs_data_get ea call_def
          example_env_simps raises_def)
  have wc: "wandb_close (example_env exc) nvs_config None = ([], Inr ())"
    by (simp add: wandb_close_def nvs_config_get bnd_lift_Inr ret_def)
  show ?thesis
    by (simp add: tracked_eval_def nvs_locals_def wo ev wc bnd_pair_Inr bnd_nil_Inr)
qed

lemma nvs_main:
  "main (example_env exc) ''configs/replica.py'' nvs_config = (nvs_calls, Inr ())"
  by (simp add: main_def nvs_prepare nvs_tracked_eval bnd_pair_Inr nvs_calls_def)

subsection \<open>The archive of scene parameters\<close>


lemma main_returns_prepare:
  assumes "snd (main env experiment config) = Inr u"
  shows "\<exists>l. snd (prepare env experiment config) = Inr l"
  using assms by (simp add: main_result split: sum.splits)

lemma prepare_returns_phases:
  assumes "snd (prepare env experiment config) = Inr l"
  shows "\<exists>device rd0 rd ld. snd (setup_device env config) = Inr device
           \<and> snd (results_dir_step env experiment config) = Inr rd0
           \<and> resolve_scene_path config rd0 = Inr (rd, l_scene_path l)
           \<and> snd (load_dataset env config device {}) = Inr ld
           \<and> l_dataset l = ld_dataset ld \<and> l_num_frames l = ld_num_frames ld
           \<and> l_load_semantics l = ld_load_semantics ld
           \<and> l_params_opt_exclude l = ld_params_opt_exclude ld
           \<and> l_device l = device"
proof -
  from assms obtain device rd0 where
    sd: "snd (setup_device env config) = Inr device"
    and rs: "snd (results_dir_step env experiment config) = Inr rd0"
    and li: "snd (load_inputs env config device rd0) = Inr l"
    unfolding prepare_def by (auto simp: snd_bnd_Inr)
  from load_inputs_returns [OF li] sd rs show ?thesis by auto
qed



subsection \<open>The results directory\<close>

lemma main_fs:
  "filter is_fs (fst (main env experiment config)) =
     (case snd (setup_device env config) of
        Inl e \<Rightarrow> []
      | Inr device \<Rightarrow> fst (results_dir_step env experiment config))"
proof -
  have 1: "filter is_fs (fst (results_dir_step env experiment config))
             = fst (results_dir_step env experiment config)"
    using emits_results_dir_step [of env "experiment" config]
    by (auto simp: emits_def filter_id_conv)
  have 2: "filter is_fs (fst (load_inputs env config device rd)) = []" for device rd
    by (rule emits_filter [OF emits_load_inputs]) auto
  have "filter is_fs (fst (main env experiment config))
          = filter is_fs (fst (prepare env experiment config))"
    by (rule main_filter) (auto dest: is_fs_other)
  also have "\<dots> = (case snd (setup_device env config) of
              Inl e \<Rightarrow> []
            | Inr device \<Rightarrow>
                filter is_fs (fst (results_dir_step env experiment config)) @
                (case snd (results_dir_step env experiment config) of
                   Inl e \<Rightarrow> []
                 | Inr rd \<Rightarrow> filter is_fs (fst (load_inputs env config device rd))))"
    by (rule prepare_filter) simp_all
  finally show ?thesis
    by (simp add: 1 2 split: sum.splits)
qed

lemma results_dir_step_run:
  assumes "map_of config ''workdir'' = Some (PStr w)" "map_of config ''run_name'' = Some (PStr r)"
      and "map_of config ''load_checkpoint'' = Some lc"
  shows "results_dir_step env experiment config =
           (if truthy lc then ([], Inr (path_join w r))
            else (case makedirs_exc env (path_join w r) of
                    Some e \<Rightarrow> ([Makedirs (path_join w r) True], Inl e)
                  | None \<Rightarrow>
                      ([Makedirs (path_join w r) True,
                        ShutilCopy experiment (path_join (path_join w r) ''config.py'')],
                       case copy_exc env experiment (path_join (path_join w r) ''config.py'') of
                         Some e \<Rightarrow> Inl e | None \<Rightarrow> Inr (path_join w r))))"
proof -
  from assms have "dict_get config ''workdir'' = Inr (PStr w)"
      "dict_get config ''run_name'' = Inr (PStr r)" "dict_get config ''load_checkpoint'' = Inr lc"
    by (simp_all add: dict_get_def)
  then show ?thesis
    by (simp add: results_dir_step_def bnd_lift_Inr bnd_def call_def ret_def raises_def
          split: option.splits)
qed

text \<open>
  Claim C7. Let the configuration have the working directory \<open>w\<close>, the run name \<open>r\<close> and
  the value \<open>lc\<close> under \<^verbatim>\<open>load_checkpoint\<close>. When \<open>lc\<close> is true, no run creates a directory
  or copies a file. When \<open>lc\<close> is false, a run creates the directory \<open>w/r\<close>, with
  \<^verbatim>\<open>exist_ok=True\<close>, at most once, and then copies the experiment file to
  \<open>w/r/config.py\<close>, at most once; the copy is left out only when creating the directory
  raised; a run that ends without an exception has done both, once each and in this
  order. The step itself makes no other call.
\<close>

theorem results_dir_effects:
  assumes w: "map_of config ''workdir'' = Some (PStr w)"
      and r: "map_of config ''run_name'' = Some (PStr r)"
      and lc: "map_of config ''load_checkpoint'' = Some lc"
  shows "(truthy lc \<longrightarrow> filter is_fs (fst (main env experiment config)) = [])
       \<and> (\<not> truthy lc \<longrightarrow>
             filter is_fs (fst (main env experiment config)) = []
           \<or> (filter is_fs (fst (main env experiment config)) = [Makedirs (path_join w r) True]
               \<and> makedirs_exc env (path_join w r) \<noteq> None)
           \<or> filter is_fs (fst (main env experiment config))
               = [Makedirs (path_join w r) True,
                  ShutilCopy experiment (path_join (path_join w r) ''config.py'')])
       \<and> (\<not> truthy lc \<and> snd (main env experiment config) = Inr () \<longrightarrow>
            filter is_fs (fst (main env experiment config))
              = [Makedirs (path_join w r) True,
                 ShutilCopy experiment (path_join (path_join w r) ''config.py'')])
       \<and> (\<forall>ev \<in> set (fst (results_dir_step env experiment config)).
            \<not> truthy lc
            \<and> (ev = Makedirs (path_join w r) True
               \<or> ev = ShutilCopy experiment (path_join (path_join w r) ''config.py'')))"
proof -
  note run = results_dir_step_run [OF w r lc, of env "experiment"]
  have 1: "truthy lc \<longrightarrow> filter is_fs (fst (main env experiment config)) = []"
    by (simp add: main_fs run split: sum.splits)
  have 2: "\<not> truthy lc \<longrightarrow>
             filter is_fs (fst (main env experiment config)) = []
           \<or> (filter is_fs (fst (main env experiment config)) = [Makedirs (path_join w r) True]
               \<and> makedirs_exc env (path_join w r) \<noteq> None)
           \<or> filter is_fs (fst (main env experiment config))
               = [Makedirs (path_join w r) True,
                  ShutilCopy experiment (path_join (path_join w r) ''config.py'')]"
    by (simp add: main_fs run split: sum.splits option.splits)
  have 3: "\<not> truthy lc \<and> snd (main env experiment config) = Inr () \<longrightarrow>
            filter is_fs (fst (main env experiment config))
              = [Makedirs (path_join w r) True,
                 ShutilCopy experiment (path_join (path_join w r) ''config.py'')]"
  proof
    assume a: "\<not> truthy lc \<and> snd (main env experiment config) = Inr ()"
    then have "snd (main env experiment config) = Inr ()" ..
    from main_returns_prepare [OF this] obtain l where "snd (prepare env experiment config) = Inr l" ..
    from prepare_returns_phases [OF this] obtain device rd0 where
      "snd (setup_device env config) = Inr device"
      "snd (results_dir_step env experiment config) = Inr rd0"
      by (elim exE conjE) (rule that)
    with a show "filter is_fs (fst (main env experiment config))
              = [Makedirs (path_join w r) True,
                 ShutilCopy experiment (path_join (path_join w r) ''config.py'')]"
      by (simp add: main_fs run split: option.splits)
  qed
  have 4: "\<forall>ev \<in> set (fst (results_dir_step env experiment config)).
            \<not> truthy lc
            \<and> (ev = Makedirs (path_join w r) True
               \<or> ev = ShutilCopy experiment (path_join (path_join w r) ''config.py''))"
    by (simp add: run split: option.splits)
  from 1 2 3 4 show ?thesis by blast
qed

theorem results_dir_effects_witness:
  "map_of (example_config (PBool True)) ''workdir'' = Some (PStr ''./experiments/Replica'')
   \<and> map_of (example_config (PBool True)) ''run_name'' = Some (PStr ''room0_0'')
   \<and> map_of (example_config (PBool True)) ''load_checkpoint'' = Some (PBool False)
   \<and> \<not> truthy (PBool False)
   \<and> snd (main (example_env None) ''configs/replica.py'' (example_config (PBool True))) = Inr ()
   \<and> filter is_fs (fst (main (example_env None) ''configs/replica.py'' (example_config (PBool True))))
       = [Makedirs ''./experiments/Replica/room0_0'' True,
          ShutilCopy ''configs/replica.py'' ''./experiments/Replica/room0_0/config.py'']
   \<and> map_of nvs_config ''workdir'' = Some (PStr ''./experiments/Replica'')
   \<and> map_of nvs_config ''run_name'' = Some (PStr ''room0_0'')
   \<and> map_of nvs_config ''load_checkpoint'' = Some (PBool True)
   \<and> truthy (PBool True)
   \<and> snd (main (example_env None) ''configs/replica.py'' nvs_config) = Inr ()
   \<and> filter is_fs (fst (main (example_env None) ''configs/replica.py'' nvs_config)) = []"
proof -
  have c: "map_of (example_config (PBool True)) ''workdir'' = Some (PStr ''./experiments/Replica'')"
      "map_of (example_config (PBool True)) ''run_name'' = Some (PStr ''room0_0'')"
      "map_of (example_config (PBool True)) ''load_checkpoint'' = Some (PBool False)"
    by (simp_all add: example_config_def)
  have n: "map_of nvs_config ''workdir'' = Some (PStr ''./experiments/Replica'')"
      "map_of nvs_config ''run_name'' = Some (PStr ''room0_0'')"
      "map_of nvs_config ''load_checkpoint'' = Some (PBool True)"
    by (simp_all add: nvs_config_def)
  have m: "snd (main (example_env None) ''configs/replica.py'' (example_config (PBool True))) = Inr ()"
    by (simp add: example_main)
  have m': "snd (main (example_env None) ''configs/replica.py'' nvs_config) = Inr ()"
    by (simp add: nvs_main)
  have 1: "filter is_fs (fst (main (example_env None) ''configs/replica.py'' (example_config (PBool True))))
       = [Makedirs ''./experiments/Replica/room0_0'' True,
          ShutilCopy ''configs/replica.py'' ''./experiments/Replica/room0_0/config.py'']"
    using results_dir_effects [OF c, of "example_env None" "''configs/replica.py''"] m
    by (simp add: path_join_def)
  have 2: "filter is_fs (fst (main (example_env None) ''configs/replica.py'' nvs_config)) = []"
    using results_dir_effects [OF n, of "example_env None" "''configs/replica.py''"]
    by simp
  from c n m m' 1 2 show ?thesis by simp
qed

end
